theory Spec2Isabelle
  imports Main "HOL-Library.Word"
begin

unbundle bit_operations_syntax

section \<open>Basic types\<close>

type_synonym byte = "8 word"
type_synonym uint32 = "32 word"
type_synonym uint64 = "64 word"
type_synonym bytes = "byte list"

section \<open>The deterministic random source (package rand)\<close>

text \<open>
  \<^verbatim>\<open>type Source struct { state [4]uint64 }\<close>: the fixed array of four words is a
  4-tuple, \<^verbatim>\<open>state[0]\<close> first.
\<close>

record Source =
  state :: "uint64 \<times> uint64 \<times> uint64 \<times> uint64"

text \<open>\<^verbatim>\<open>type Rand struct { source *Source }\<close>\<close>

record Rand =
  source :: Source

text \<open>
  \<^verbatim>\<open>func rotl(x uint64, k uint64) uint64 { return (x << k) | (x >> (64 - k)) }\<close>.
  The shift counts are unsigned 64-bit values: \<^verbatim>\<open>64 - k\<close> wraps, and a shift by 64 or
  more gives 0, as \<open>push_bit\<close> and \<open>drop_bit\<close> on a 64-bit word do.
\<close>

definition rotl :: "uint64 \<Rightarrow> uint64 \<Rightarrow> uint64" where
  "rotl x k = push_bit (unat k) x OR drop_bit (unat (64 - k)) x"

text \<open>\<^verbatim>\<open>func (s *Source) Uint64() uint64\<close>, statement by statement.\<close>

definition Source_Uint64 :: "Source \<Rightarrow> uint64 \<times> Source" where
  "Source_Uint64 s =
     (case state s of (s0, s1, s2, s3) \<Rightarrow>
        let result = rotl (s0 + s3) 23 + s0;
            t = push_bit 17 s1;
            s2 = s2 XOR s0;
            s3 = s3 XOR s1;
            s1 = s1 XOR s2;
            s0 = s0 XOR s3;
            s2 = s2 XOR t;
            s3 = rotl s3 45
        in (result, s\<lparr>state := (s0, s1, s2, s3)\<rparr>))"

text \<open>
  \<^verbatim>\<open>binary.LittleEndian.Uint64(b)\<close> of the Go standard library:
  \<^verbatim>\<open>uint64(b[0]) | uint64(b[1])<<8 | ... | uint64(b[7])<<56\<close>. Every caller below passes a
  slice of exactly eight bytes.
\<close>

definition LittleEndian_Uint64 :: "bytes \<Rightarrow> uint64" where
  "LittleEndian_Uint64 b =
     ucast (b ! 0) OR push_bit 8 (ucast (b ! 1)) OR push_bit 16 (ucast (b ! 2)) OR
     push_bit 24 (ucast (b ! 3)) OR push_bit 32 (ucast (b ! 4)) OR push_bit 40 (ucast (b ! 5)) OR
     push_bit 48 (ucast (b ! 6)) OR push_bit 56 (ucast (b ! 7))"

text \<open>
  \<^verbatim>\<open>binary.LittleEndian.PutUint64(b, v)\<close>: \<^verbatim>\<open>b[0] = byte(v); b[1] = byte(v >> 8); ...\<close>,
  as the eight bytes it stores.
\<close>

definition LittleEndian_PutUint64 :: "uint64 \<Rightarrow> bytes" where
  "LittleEndian_PutUint64 v =
     [ucast v, ucast (drop_bit 8 v), ucast (drop_bit 16 v), ucast (drop_bit 24 v),
      ucast (drop_bit 32 v), ucast (drop_bit 40 v), ucast (drop_bit 48 v), ucast (drop_bit 56 v)]"

text \<open>
  \<^verbatim>\<open>var sum [32]byte; hash.Sum(sum[:0])\<close>: the digest is appended to an empty slice of
  capacity 32 over the array \<^verbatim>\<open>sum\<close>. crypto/sha256 is not part of the repository; its
  digest function is the parameter \<open>sha256\<close>. The array always has 32 cells.
\<close>

definition sum32 :: "bytes \<Rightarrow> bytes" where
  "sum32 digest = take 32 (digest @ replicate 32 0)"

text \<open>\<^verbatim>\<open>func newSource(invocationID []byte) *Source\<close>\<close>

definition newSource :: "(bytes \<Rightarrow> bytes) \<Rightarrow> bytes \<Rightarrow> Source" where
  "newSource sha256 invocationID =
     (let sum = sum32 (sha256 invocationID) in
      \<lparr>state = (LittleEndian_Uint64 (take 8 sum),
                 LittleEndian_Uint64 (take 8 (drop 8 sum)),
                 LittleEndian_Uint64 (take 8 (drop 16 sum)),
                 LittleEndian_Uint64 (take 8 (drop 24 sum)))\<rparr>)"

text \<open>\<^verbatim>\<open>func New(invocationID []byte) *Rand\<close>\<close>

definition New :: "(bytes \<Rightarrow> bytes) \<Rightarrow> bytes \<Rightarrow> Rand" where
  "New sha256 invocationID = \<lparr>source = newSource sha256 invocationID\<rparr>"

text \<open>\<^verbatim>\<open>func (r *Rand) Uint64() uint64 { return r.source.Uint64() }\<close>\<close>

definition Rand_Uint64 :: "Rand \<Rightarrow> uint64 \<times> Rand" where
  "Rand_Uint64 r = (case Source_Uint64 (source r) of (v, s) \<Rightarrow> (v, r\<lparr>source := s\<rparr>))"

text \<open>\<^verbatim>\<open>func (r *Rand) UUID() uuid.UUID\<close>: the 16-byte array and the advanced generator.\<close>

definition UUID :: "Rand \<Rightarrow> bytes \<times> Rand" where
  "UUID r =
     (case Rand_Uint64 r of (a, r1) \<Rightarrow>
      case Rand_Uint64 r1 of (b, r2) \<Rightarrow>
        let uuid = LittleEndian_PutUint64 a @ LittleEndian_PutUint64 b;
            uuid = uuid[6 := (uuid ! 6 AND 0x0f) OR 0x40];
            uuid = uuid[8 := (uuid ! 8 AND 0x3f) OR 0x80]
        in (uuid, r2))"

text \<open>The first \<open>n\<close> values of successive \<^verbatim>\<open>Uint64()\<close> calls on one generator.\<close>

fun Uint64s :: "nat \<Rightarrow> Rand \<Rightarrow> uint64 list" where
  "Uint64s 0 r = []"
| "Uint64s (Suc n) r = (case Rand_Uint64 r of (v, r') \<Rightarrow> v # Uint64s n r')"

subsection \<open>The generator as the specification words it\<close>

text \<open>
  The specification's step on the array of four words, with \<open>rotl\<close> read as rotation of
  the 64-bit word and the statements applied in the order given.
\<close>

definition spec_Uint64 :: "uint64 list \<Rightarrow> uint64 \<times> uint64 list" where
  "spec_Uint64 st =
     (let result = word_rotl 23 (st ! 0 + st ! 3) + st ! 0;
          t = st ! 1 * 2 ^ 17;
          st = st[2 := st ! 2 XOR st ! 0];
          st = st[3 := st ! 3 XOR st ! 1];
          st = st[1 := st ! 1 XOR st ! 2];
          st = st[0 := st ! 0 XOR st ! 3];
          st = st[2 := st ! 2 XOR t];
          st = st[3 := word_rotl 45 (st ! 3)]
      in (result, st))"

text \<open>
  A little-endian word: byte \<open>j\<close> of the slice has weight \<open>256 ^ j\<close>.
\<close>

fun le_value :: "bytes \<Rightarrow> nat" where
  "le_value [] = 0"
| "le_value (b # bs) = unat b + 256 * le_value bs"

definition spec_seed :: "bytes \<Rightarrow> uint64 list" where
  "spec_seed digest = map (\<lambda>i. word_of_nat (le_value (take 8 (drop (8 * i) digest)))) [0, 1, 2, 3]"

fun spec_Uint64s :: "nat \<Rightarrow> uint64 list \<Rightarrow> uint64 list" where
  "spec_Uint64s 0 st = []"
| "spec_Uint64s (Suc n) st = (case spec_Uint64 st of (v, st') \<Rightarrow> v # spec_Uint64s n st')"

definition words_of :: "Rand \<Rightarrow> uint64 list" where
  "words_of r = (case state (source r) of (s0, s1, s2, s3) \<Rightarrow> [s0, s1, s2, s3])"

section \<open>Errors, wire messages and panics\<close>

text \<open>
  A Go \<^verbatim>\<open>error\<close> value, as the observations the state machine makes on it:
  \<^verbatim>\<open>err.Error()\<close>, \<^verbatim>\<open>uint32(restate.ErrorCode(err))\<close>, \<^verbatim>\<open>restate.IsTerminalError(err)\<close> and
  \<^verbatim>\<open>errors.Is(err, io.EOF)\<close>. The functions themselves live outside the files modelled here.
\<close>

record go_error =
  errorText :: string
  errorCode :: uint32
  isTerminal :: bool
  isEOF :: bool

text \<open>
  \<^verbatim>\<open>io.EOF\<close> and \<^verbatim>\<open>wire.ErrUnexpectedMessage\<close>. Neither carries a code of its own; 500 stands
  for the code \<^verbatim>\<open>restate.ErrorCode\<close> gives such an error.
\<close>

definition io_EOF :: go_error where
  "io_EOF = \<lparr>errorText = ''EOF'', errorCode = 500, isTerminal = False, isEOF = True\<rparr>"

definition ErrUnexpectedMessage :: go_error where
  "ErrUnexpectedMessage =
     \<lparr>errorText = ''unexpected message'', errorCode = 500, isTerminal = False, isEOF = False\<rparr>"

text \<open>\<^verbatim>\<open>fmt.Errorf(prefix + ": %w", err)\<close>: the text grows, what the error wraps stays.\<close>

definition wrap_error :: "string \<Rightarrow> go_error \<Rightarrow> go_error" where
  "wrap_error prefix err = err\<lparr>errorText := prefix @ '': '' @ errorText err\<rparr>"

text \<open>\<^verbatim>\<open>errors.NewTerminalError(err)\<close>: the same error, marked terminal.\<close>

definition NewTerminalError :: "go_error \<Rightarrow> go_error" where
  "NewTerminalError err = err\<lparr>isTerminal := True\<rparr>"

text \<open>The message kinds of the protocol, one per Go message type of package wire.\<close>

datatype message_type =
    StartMessageType | CompletionMessageType | SuspensionMessageType | ErrorMessageType
  | EndMessageType | EntryAckMessageType | InputEntryMessageType | OutputEntryMessageType
  | GetStateEntryMessageType | SetStateEntryMessageType | ClearStateEntryMessageType
  | ClearAllStateEntryMessageType | GetStateKeysEntryMessageType | SleepEntryMessageType
  | CallEntryMessageType | OneWayCallEntryMessageType | AwakeableEntryMessageType
  | CompleteAwakeableEntryMessageType | SideEffectEntryMessageType

record StartMessage =
  start_Id :: bytes
  start_DebugId :: string
  start_KnownEntries :: uint32
  start_StateMap :: "(bytes \<times> bytes) list"
  start_PartialState :: bool
  start_Key :: string

record Failure =
  failure_Code :: uint32
  failure_Message :: string

text \<open>The \<^verbatim>\<open>Result\<close> oneof of an output, a call entry or a completion.\<close>

datatype result_oneof = Value bytes | Failure Failure

record CallEntryMessage =
  call_ServiceName :: string
  call_HandlerName :: string
  call_Parameter :: bytes
  call_Key :: string
  call_Result :: "result_oneof option"

record OneWayCallEntryMessage =
  send_ServiceName :: string
  send_HandlerName :: string
  send_Parameter :: bytes
  send_Key :: string
  send_InvokeTime :: uint64

text \<open>
  \<^verbatim>\<open>protocol.ErrorMessage\<close>. \<^verbatim>\<open>RelatedEntryType\<close> holds \<^verbatim>\<open>wire.MessageType(..).UInt32()\<close>;
  the numeric codes are declared in package wire, so the field keeps the message type.
\<close>

record ErrorMessage =
  err_Code :: uint32
  err_Message :: string
  err_Description :: string
  err_RelatedEntryIndex :: "uint32 option"
  err_RelatedEntryType :: "message_type option"

text \<open>
  A \<^verbatim>\<open>wire.Message\<close> interface value. The entries whose fields no function below reads
  keep their payload as serialised bytes. \<open>NilMsg t\<close> is a nil pointer of the message type
  \<open>t\<close>, which is what the zero value of a type parameter \<^verbatim>\<open>M\<close> is; the frames read from
  the stream are never nil.
\<close>

datatype message =
    StartMsg StartMessage
  | InputEntryMsg bytes
  | OutputEntryMsg result_oneof
  | CallEntryMsg CallEntryMessage
  | OneWayCallEntryMsg OneWayCallEntryMessage
  | ErrorMsg ErrorMessage
  | SuspensionMsg "uint32 list"
  | EndMsg
  | CompletionMsg uint32 "result_oneof option"
  | EntryAckMsg uint32
  | GetStateEntryMsg bytes
  | SetStateEntryMsg bytes
  | ClearStateEntryMsg bytes
  | ClearAllStateEntryMsg
  | GetStateKeysEntryMsg bytes
  | SleepEntryMsg bytes
  | AwakeableEntryMsg bytes
  | CompleteAwakeableEntryMsg bytes
  | SideEffectEntryMsg bytes
  | NilMsg message_type

text \<open>\<^verbatim>\<open>wire.MessageType(msg)\<close>: the dynamic type of a message.\<close>

fun MessageType :: "message \<Rightarrow> message_type" where
  "MessageType (StartMsg _) = StartMessageType"
| "MessageType (InputEntryMsg _) = InputEntryMessageType"
| "MessageType (OutputEntryMsg _) = OutputEntryMessageType"
| "MessageType (CallEntryMsg _) = CallEntryMessageType"
| "MessageType (OneWayCallEntryMsg _) = OneWayCallEntryMessageType"
| "MessageType (ErrorMsg _) = ErrorMessageType"
| "MessageType (SuspensionMsg _) = SuspensionMessageType"
| "MessageType EndMsg = EndMessageType"
| "MessageType (CompletionMsg _ _) = CompletionMessageType"
| "MessageType (EntryAckMsg _) = EntryAckMessageType"
| "MessageType (GetStateEntryMsg _) = GetStateEntryMessageType"
| "MessageType (SetStateEntryMsg _) = SetStateEntryMessageType"
| "MessageType (ClearStateEntryMsg _) = ClearStateEntryMessageType"
| "MessageType ClearAllStateEntryMsg = ClearAllStateEntryMessageType"
| "MessageType (GetStateKeysEntryMsg _) = GetStateKeysEntryMessageType"
| "MessageType (SleepEntryMsg _) = SleepEntryMessageType"
| "MessageType (AwakeableEntryMsg _) = AwakeableEntryMessageType"
| "MessageType (CompleteAwakeableEntryMsg _) = CompleteAwakeableEntryMessageType"
| "MessageType (SideEffectEntryMsg _) = SideEffectEntryMessageType"
| "MessageType (NilMsg t) = t"

text \<open>
  The expected entry of a mismatch is a \<^verbatim>\<open>wire.Message\<close> interface value: either the zero
  value of the type parameter \<^verbatim>\<open>M\<close> (a typed nil pointer, which carries only its type) or a
  message built from the arguments of the operation.
\<close>

datatype expected_entry = ZeroValue message_type | Built message

text \<open>
  The values the state machine panics with, with the fields \<^verbatim>\<open>invoke\<close> reads from them.
  \<open>OtherPanic\<close> is any other panic value, as \<^verbatim>\<open>fmt.Sprint\<close> renders it.
\<close>

record entryMismatch =
  mismatch_entryIndex :: uint32
  expectedEntry :: expected_entry
  actualEntry :: message

record writeError =
  write_entryIndex :: uint32
  write_entry :: message
  write_err :: go_error

record sideEffectFailure =
  sideEffect_entryIndex :: uint32
  sideEffect_err :: go_error

record SuspensionPanic =
  EntryIndexes :: "uint32 list"
  Err :: go_error

datatype panic_value =
    EntryMismatch entryMismatch
  | WriteError writeError
  | SideEffectFailure sideEffectFailure
  | Suspension SuspensionPanic
  | OtherPanic string

section \<open>The frame codec and the machine\<close>

text \<open>
  Modelled from the spec: \<^verbatim>\<open>wire.Protocol\<close> (section 4.A, the frame codec) is not among the
  source files. A read yields the next incoming frame or fails (a transport error, or
  end of stream once the frames are used up); a write serialises one frame and may fail
  with a transport error. \<open>writes\<close> lists every frame handed to \<^verbatim>\<open>Write\<close>, in call order;
  \<open>writeResults\<close> is what the transport answers to the coming writes (none left: success).
\<close>

record Protocol =
  incoming :: "(go_error + message) list"
  writes :: "message list"
  writeResults :: "go_error option list"

definition protocol_Read :: "Protocol \<Rightarrow> (go_error + message) \<times> Protocol" where
  "protocol_Read p =
     (case incoming p of
        [] \<Rightarrow> (Inl io_EOF, p)
      | r # rest \<Rightarrow> (r, p\<lparr>incoming := rest\<rparr>))"

definition protocol_Write :: "message \<Rightarrow> Protocol \<Rightarrow> go_error option \<times> Protocol" where
  "protocol_Write msg p =
     (case writeResults p of
        [] \<Rightarrow> (None, p\<lparr>writes := writes p @ [msg]\<rparr>)
      | r # rest \<Rightarrow> (r, p\<lparr>writes := writes p @ [msg], writeResults := rest\<rparr>))"

text \<open>
  \<^verbatim>\<open>type Machine struct\<close>. \<open>ctx\<close> is what \<^verbatim>\<open>m.ctx.Err()\<close> returns (\<open>None\<close> while the outer
  context is live). \<^verbatim>\<open>m.ctx\<close> is read only by \<^verbatim>\<open>invoke\<close>, which runs after \<^verbatim>\<open>Start\<close> has set
  it; before that the Go field is a nil interface, for which \<open>None\<close> stands as well. The
  handler is passed to the functions that call it; the logger, the mutexes and the pending
  maps are touched by none of the functions below.
\<close>

record Machine =
  ctx :: "go_error option"
  protocol :: Protocol
  id_field :: bytes
  key_field :: string
  partial :: bool
  current :: "string \<rightharpoonup> bytes"
  entries :: "message list"
  entryIndex :: uint32
  failure :: "panic_value option"

text \<open>
  \<^verbatim>\<open>func NewMachine(handler restate.Handler, conn io.ReadWriter) *Machine\<close>. Every field
  the constructor does not name has its zero value; \<^verbatim>\<open>m.ctx\<close> is set by \<^verbatim>\<open>Start\<close>.
\<close>

definition NewMachine :: "Protocol \<Rightarrow> Machine" where
  "NewMachine conn =
     \<lparr>ctx = None, protocol = conn, id_field = [], key_field = [], partial = False,
      current = Map.empty, entries = [], entryIndex = 0, failure = None\<rparr>"

text \<open>A call on the machine either returns a value or panics; both leave a machine behind.\<close>

type_synonym 'a result = "(panic_value + 'a) \<times> Machine"

definition machine_Read :: "Machine \<Rightarrow> (go_error + message) \<times> Machine" where
  "machine_Read m = (case protocol_Read (protocol m) of (r, p) \<Rightarrow> (r, m\<lparr>protocol := p\<rparr>))"

definition machine_protocol_Write :: "message \<Rightarrow> Machine \<Rightarrow> go_error option \<times> Machine" where
  "machine_protocol_Write msg m =
     (case protocol_Write msg (protocol m) of (r, p) \<Rightarrow> (r, m\<lparr>protocol := p\<rparr>))"

text \<open>
  Modelled from the spec: \<^verbatim>\<open>m.newEntryMismatch\<close> is not among the source files. It builds
  the JournalMismatch(expected, actual, index) of section 4.C at the current cursor and,
  as the sticky failure of section 4.F, stores it in the machine.
\<close>

definition newEntryMismatch :: "expected_entry \<Rightarrow> message \<Rightarrow> Machine \<Rightarrow> entryMismatch \<times> Machine" where
  "newEntryMismatch expected actual m =
     (let e = \<lparr>mismatch_entryIndex = entryIndex m, expectedEntry = expected, actualEntry = actual\<rparr>
      in (e, m\<lparr>failure := Some (EntryMismatch e)\<rparr>))"

text \<open>
  Modelled from the spec: \<^verbatim>\<open>m.Write\<close> is not among the source files. It writes the frame
  of a new entry; when the frame codec fails it panics with the WriteError of section 4.F
  (the failing entry and its index), stored as the sticky failure.
\<close>

definition Write :: "message \<Rightarrow> Machine \<Rightarrow> unit result" where
  "Write msg m =
     (case machine_protocol_Write msg m of
        (None, m') \<Rightarrow> (Inr (), m')
      | (Some err, m') \<Rightarrow>
          (let w = \<lparr>write_entryIndex = entryIndex m', write_entry = msg, write_err = err\<rparr>
           in (Inl (WriteError w), m'\<lparr>failure := Some (WriteError w)\<rparr>)))"

section \<open>The journal: currentEntry and replayOrNew\<close>

text \<open>
  \<^verbatim>\<open>func (c *Machine) currentEntry() (wire.Message, bool)\<close>. The comparison and the index
  are 32-bit: \<^verbatim>\<open>uint32(len(c.entries))\<close> truncates and \<^verbatim>\<open>c.entryIndex-1\<close> wraps at 0, where
  the slice access panics with an index out of range.
\<close>

definition currentEntry :: "Machine \<Rightarrow> panic_value + message option" where
  "currentEntry c =
     (if entryIndex c \<le> word_of_nat (length (entries c)) then
        (if unat (entryIndex c - 1) < length (entries c)
         then Inr (Some (entries c ! unat (entryIndex c - 1)))
         else Inl (OtherPanic ''runtime error: index out of range''))
      else Inr None)"

text \<open>
  \<^verbatim>\<open>func replayOrNew[M wire.Message, O any](m *Machine, replay func(msg M) O, new func() O)
  (output O, entryIndex uint32)\<close>. The type parameter \<^verbatim>\<open>M\<close> is the message type \<open>M\<close>: the
  assertion \<^verbatim>\<open>entry.(M)\<close> holds when the dynamic type of the entry is \<open>M\<close>. Both closures
  capture the machine and run under \<^verbatim>\<open>entryMutex\<close>. Go leaves open whether the return
  statement reads \<^verbatim>\<open>m.entryIndex\<close> before or after it calls the closure; no closure of the
  package assigns the cursor, and the index returned is the cursor as incremented here.

  In \<^verbatim>\<open>if entry, ok := entry.(M); !ok { ... panic(m.newEntryMismatch(expectedEntry, entry)) }\<close>
  the short declaration shadows the journal entry: inside the branch \<^verbatim>\<open>entry\<close> is the
  result of the failed assertion, the zero value of \<^verbatim>\<open>M\<close>. So the actual entry handed to
  \<^verbatim>\<open>newEntryMismatch\<close> is a nil pointer of type \<^verbatim>\<open>M\<close>, not the entry of the journal.
\<close>

definition replayOrNew ::
  "message_type \<Rightarrow> (message \<Rightarrow> Machine \<Rightarrow> 'o result) \<Rightarrow> (Machine \<Rightarrow> 'o result) \<Rightarrow>
   Machine \<Rightarrow> ('o \<times> uint32) result" where
  "replayOrNew M replay new m =
     (case failure m of
        Some f \<Rightarrow> (Inl f, m)
      | None \<Rightarrow>
          (let m = m\<lparr>entryIndex := entryIndex m + 1\<rparr> in
           case currentEntry m of
             Inl p \<Rightarrow> (Inl p, m)
           | Inr (Some entry) \<Rightarrow>
               (if MessageType entry \<noteq> M then
                  (case newEntryMismatch (ZeroValue M) (NilMsg M) m of
                     (e, m') \<Rightarrow> (Inl (EntryMismatch e), m'))
                else
                  (case replay entry m of
                     (Inl p, m') \<Rightarrow> (Inl p, m')
                   | (Inr out, m') \<Rightarrow> (Inr (out, entryIndex m), m')))
           | Inr None \<Rightarrow>
               (case new m of
                  (Inl p, m') \<Rightarrow> (Inl p, m')
                | (Inr out, m') \<Rightarrow> (Inr (out, entryIndex m), m'))))"

section \<open>Calls and one-way calls (call.go)\<close>

text \<open>
  What the functions of the machine take from outside it: \<^verbatim>\<open>debug.Stack()\<close>, the text
  \<^verbatim>\<open>fmt.Sprintf\<close> and \<^verbatim>\<open>json.Marshal\<close> build for a journal mismatch,
  \<^verbatim>\<open>time.Now().Add(delay).UnixMilli()\<close> for a delay in nanoseconds, and the two error
  codes declared in package errors.
\<close>

record Env =
  debug_Stack :: string
  mismatch_Message :: "entryMismatch \<Rightarrow> string"
  UnixMilli_after :: "int \<Rightarrow> int"
  ErrJournalMismatch :: uint32
  ErrProtocolViolation :: uint32

text \<open>\<^verbatim>\<open>func (m *Machine) _doCall(service, key, method string, params []byte) *wire.CallEntryMessage\<close>\<close>

definition doCall_new :: "string \<Rightarrow> string \<Rightarrow> string \<Rightarrow> bytes \<Rightarrow> Machine \<Rightarrow> CallEntryMessage result" where
  "doCall_new service key method params m =
     (let msg = \<lparr>call_ServiceName = service, call_HandlerName = method,
                 call_Parameter = params, call_Key = key, call_Result = None\<rparr>
      in case Write (CallEntryMsg msg) m of
           (Inl p, m') \<Rightarrow> (Inl p, m')
         | (Inr _, m') \<Rightarrow> (Inr msg, m'))"

text \<open>
  The replay closure of \<^verbatim>\<open>doCall\<close>. \<^verbatim>\<open>replayOrNew\<close> passes it only entries of type
  \<^verbatim>\<open>*wire.CallEntryMessage\<close>; reading a field of a nil pointer panics. The last equation
  stands for the argument types Go rules out and is never reached from \<open>doCall\<close>.
\<close>

fun doCall_replay ::
  "string \<Rightarrow> string \<Rightarrow> string \<Rightarrow> bytes \<Rightarrow> message \<Rightarrow> Machine \<Rightarrow> CallEntryMessage result" where
  "doCall_replay service key method params (CallEntryMsg entry) m =
     (if call_ServiceName entry \<noteq> service \<or>
         call_Key entry \<noteq> key \<or>
         call_HandlerName entry \<noteq> method \<or>
         call_Parameter entry \<noteq> params
      then
        (case newEntryMismatch
                (Built (CallEntryMsg \<lparr>call_ServiceName = service, call_HandlerName = method,
                                       call_Parameter = params, call_Key = key, call_Result = None\<rparr>))
                (CallEntryMsg entry) m of
           (e, m') \<Rightarrow> (Inl (EntryMismatch e), m'))
      else (Inr entry, m))"
| "doCall_replay service key method params (NilMsg t) m =
     (Inl (OtherPanic ''runtime error: invalid memory address or nil pointer dereference''), m)"
| "doCall_replay service key method params other m =
     (Inl (OtherPanic ''interface conversion''), m)"

text \<open>
  \<^verbatim>\<open>func (m *Machine) doCall(service, key, method string, params []byte)
  (*wire.CallEntryMessage, uint32)\<close>
\<close>

definition doCall ::
  "string \<Rightarrow> string \<Rightarrow> string \<Rightarrow> bytes \<Rightarrow> Machine \<Rightarrow> (CallEntryMessage \<times> uint32) result" where
  "doCall service key method params m =
     replayOrNew CallEntryMessageType
       (doCall_replay service key method params)
       (doCall_new service key method params) m"

text \<open>
  \<^verbatim>\<open>func (c *Machine) _sendCall(service, key, method string, params []byte, delay time.Duration)\<close>;
  \<^verbatim>\<open>uint64(..)\<close> of the signed milliseconds is the conversion to a 64-bit word.
\<close>

definition sendCall_new ::
  "Env \<Rightarrow> string \<Rightarrow> string \<Rightarrow> string \<Rightarrow> bytes \<Rightarrow> int \<Rightarrow> Machine \<Rightarrow> unit result" where
  "sendCall_new env service key method params delay c =
     (let invokeTime = (if delay \<noteq> 0 then word_of_int (UnixMilli_after env delay) else 0)
      in Write (OneWayCallEntryMsg
                  \<lparr>send_ServiceName = service, send_HandlerName = method,
                   send_Parameter = params, send_Key = key, send_InvokeTime = invokeTime\<rparr>) c)"

text \<open>The replay closure of \<^verbatim>\<open>sendCall\<close>; it returns \<^verbatim>\<open>restate.Void{}\<close>.\<close>

fun sendCall_replay ::
  "string \<Rightarrow> string \<Rightarrow> string \<Rightarrow> bytes \<Rightarrow> message \<Rightarrow> Machine \<Rightarrow> unit result" where
  "sendCall_replay service key method body (OneWayCallEntryMsg entry) m =
     (if send_ServiceName entry \<noteq> service \<or>
         send_Key entry \<noteq> key \<or>
         send_HandlerName entry \<noteq> method \<or>
         send_Parameter entry \<noteq> body
      then
        (case newEntryMismatch
                (Built (OneWayCallEntryMsg
                          \<lparr>send_ServiceName = service, send_HandlerName = method,
                           send_Parameter = body, send_Key = key, send_InvokeTime = 0\<rparr>))
                (OneWayCallEntryMsg entry) m of
           (e, m') \<Rightarrow> (Inl (EntryMismatch e), m'))
      else (Inr (), m))"
| "sendCall_replay service key method body (NilMsg t) m =
     (Inl (OtherPanic ''runtime error: invalid memory address or nil pointer dereference''), m)"
| "sendCall_replay service key method body other m =
     (Inl (OtherPanic ''interface conversion''), m)"

text \<open>
  \<^verbatim>\<open>func (m *Machine) sendCall(service, key, method string, body []byte, delay time.Duration)\<close>:
  both results of \<^verbatim>\<open>replayOrNew\<close> are dropped.
\<close>

definition sendCall ::
  "Env \<Rightarrow> string \<Rightarrow> string \<Rightarrow> string \<Rightarrow> bytes \<Rightarrow> int \<Rightarrow> Machine \<Rightarrow> unit result" where
  "sendCall env service key method body delay m =
     (case replayOrNew OneWayCallEntryMessageType
             (sendCall_replay service key method body)
             (sendCall_new env service key method body delay) m of
        (Inl p, m') \<Rightarrow> (Inl p, m')
      | (Inr _, m') \<Rightarrow> (Inr (), m'))"

text \<open>
  \<^verbatim>\<open>type serviceCall struct\<close>; the codec of its options is the parameter \<open>marshal\<close> of
  \<open>RequestFuture\<close>.
\<close>

record serviceCall =
  serviceCall_service :: string
  serviceCall_key :: string
  serviceCall_method :: string

text \<open>
  \<^verbatim>\<open>futures.ResponseFuture\<close> as \<^verbatim>\<open>NewResponseFuture\<close> receives it: the entry and its index.
\<close>

record ResponseFuture =
  future_entry :: CallEntryMessage
  future_entryIndex :: uint32

text \<open>
  \<^verbatim>\<open>func (c *serviceCall) RequestFuture(input any) (restate.ResponseFuture, error)\<close>.
  The input is \<open>None\<close> for \<^verbatim>\<open>restate.Void{}\<close>, which is sent as no bytes.
\<close>

definition RequestFuture ::
  "('a \<Rightarrow> go_error + bytes) \<Rightarrow> serviceCall \<Rightarrow> 'a option \<Rightarrow> Machine \<Rightarrow>
   (go_error + ResponseFuture) result" where
  "RequestFuture marshal c input m =
     (case (case input of None \<Rightarrow> Inr [] | Some v \<Rightarrow> marshal v) of
        Inl err \<Rightarrow>
          (Inr (Inl (NewTerminalError (wrap_error ''failed to marshal RequestFuture input'' err))), m)
      | Inr bytes \<Rightarrow>
          (case doCall (serviceCall_service c) (serviceCall_key c) (serviceCall_method c) bytes m of
             (Inl p, m') \<Rightarrow> (Inl p, m')
           | (Inr (entry, idx), m') \<Rightarrow>
               (Inr (Inr \<lparr>future_entry = entry, future_entryIndex = idx\<rparr>), m')))"

text \<open>
  Modelled from the spec: the completion router (section 4.D) and the await of a future
  (section 4.B) are not among the source files. The router takes the frames that follow
  the replayed journal; a \<^verbatim>\<open>Completion\<close> for the awaited index completes the future, and
  when the stream ends or fails first, the suspension context is cancelled with that
  cause.
\<close>

fun route_completion :: "uint32 \<Rightarrow> (go_error + message) list \<Rightarrow> go_error + result_oneof option" where
  "route_completion i [] = Inl io_EOF"
| "route_completion i (Inl err # rest) = Inl err"
| "route_completion i (Inr (CompletionMsg j r) # rest) =
     (if j = i then Inr r else route_completion i rest)"
| "route_completion i (Inr other # rest) = route_completion i rest"

text \<open>
  Modelled from the spec: \<^verbatim>\<open>Response()\<close> of a response future (section 4.B). An entry that
  already carries its result returns it; otherwise the await ends with the completion or
  raises the suspension, carrying the entry index and the cause.
\<close>

definition Response :: "ResponseFuture \<Rightarrow> Machine \<Rightarrow> result_oneof option result" where
  "Response fut m =
     (case call_Result (future_entry fut) of
        Some r \<Rightarrow> (Inr (Some r), m)
      | None \<Rightarrow>
          (case route_completion (future_entryIndex fut) (incoming (protocol m)) of
             Inr r \<Rightarrow> (Inr r, m)
           | Inl cause \<Rightarrow>
               (Inl (Suspension \<lparr>EntryIndexes = [future_entryIndex fut], Err = cause\<rparr>), m)))"

section \<open>The invocation (state.go)\<close>

text \<open>
  \<^verbatim>\<open>restate.Handler\<close>: \<^verbatim>\<open>Call(ctx, input)\<close> runs user code on the context, which wraps the
  machine, and returns \<^verbatim>\<open>([]byte, error)\<close> or panics.
\<close>

type_synonym Handler = "Machine \<Rightarrow> bytes \<Rightarrow> (bytes \<times> go_error option) result"

text \<open>
  The deferred function of \<^verbatim>\<open>invoke\<close> for a recovered panic value, one case of its type
  switch after the other. The results of its writes are logged and dropped.
\<close>

definition recovered :: "Env \<Rightarrow> panic_value \<Rightarrow> Machine \<Rightarrow> Machine" where
  "recovered env r m =
     (case r of
        EntryMismatch typ \<Rightarrow>
          snd (machine_protocol_Write
                 (ErrorMsg \<lparr>err_Code = ErrJournalMismatch env,
                            err_Message = mismatch_Message env typ,
                            err_Description = debug_Stack env,
                            err_RelatedEntryIndex = Some (mismatch_entryIndex typ),
                            err_RelatedEntryType = Some (MessageType (actualEntry typ))\<rparr>) m)
      | WriteError typ \<Rightarrow>
          snd (machine_protocol_Write
                 (ErrorMsg \<lparr>err_Code = ErrProtocolViolation env,
                            err_Message = errorText (write_err typ),
                            err_Description = debug_Stack env,
                            err_RelatedEntryIndex = Some (write_entryIndex typ),
                            err_RelatedEntryType = Some (MessageType (write_entry typ))\<rparr>) m)
      | SideEffectFailure typ \<Rightarrow>
          snd (machine_protocol_Write
                 (ErrorMsg \<lparr>err_Code = errorCode (sideEffect_err typ),
                            err_Message = errorText (sideEffect_err typ),
                            err_Description = debug_Stack env,
                            err_RelatedEntryIndex = Some (sideEffect_entryIndex typ),
                            err_RelatedEntryType = Some AwakeableEntryMessageType\<rparr>) m)
      | Suspension typ \<Rightarrow>
          (if ctx m \<noteq> None then m
           else if isEOF (Err typ) then
             snd (machine_protocol_Write (SuspensionMsg (EntryIndexes typ)) m)
           else
             snd (machine_protocol_Write
                    (ErrorMsg \<lparr>err_Code = errorCode (Err typ),
                               err_Message = ''problem reading completions: '' @ errorText (Err typ),
                               err_Description = debug_Stack env,
                               err_RelatedEntryIndex = None,
                               err_RelatedEntryType = None\<rparr>) m))
      | OtherPanic typ \<Rightarrow>
          snd (machine_protocol_Write
                 (ErrorMsg \<lparr>err_Code = 500,
                            err_Message = typ,
                            err_Description = debug_Stack env,
                            err_RelatedEntryIndex = None,
                            err_RelatedEntryType = None\<rparr>) m))"

text \<open>
  \<^verbatim>\<open>func (m *Machine) invoke(ctx *Context, input []byte, outputSeen bool) error\<close>. After a
  recovered panic the function returns the zero value of its result, no error.
\<close>

definition invoke :: "Env \<Rightarrow> Handler \<Rightarrow> Machine \<Rightarrow> bytes \<Rightarrow> bool \<Rightarrow> go_error option \<times> Machine" where
  "invoke env handler m input outputSeen =
     (if outputSeen then machine_protocol_Write EndMsg m
      else
        (case handler m input of
           (Inl r, m') \<Rightarrow> (None, recovered env r m')
         | (Inr (bytes, Some err), m') \<Rightarrow>
             (if isTerminal err then
                (case machine_protocol_Write
                        (OutputEntryMsg
                           (Failure \<lparr>failure_Code = errorCode err, failure_Message = errorText err\<rparr>)) m' of
                   (Some werr, m'') \<Rightarrow> (Some werr, m'')
                 | (None, m'') \<Rightarrow> machine_protocol_Write EndMsg m'')
              else
                machine_protocol_Write
                  (ErrorMsg \<lparr>err_Code = errorCode err,
                             err_Message = errorText err,
                             err_Description = [],
                             err_RelatedEntryIndex = None,
                             err_RelatedEntryType = None\<rparr>) m')
         | (Inr (bytes, None), m') \<Rightarrow>
             (case machine_protocol_Write (OutputEntryMsg (Value bytes)) m' of
                (Some werr, m'') \<Rightarrow> (Some werr, m'')
              | (None, m'') \<Rightarrow> machine_protocol_Write EndMsg m'')))"

text \<open>\<^verbatim>\<open>string(entry.Key)\<close>: the same bytes, as a string.\<close>

definition string_of_bytes :: "bytes \<Rightarrow> string" where
  "string_of_bytes bs = map (\<lambda>b. char_of (unat b)) bs"

text \<open>
  The replay loop of \<^verbatim>\<open>process\<close>:
  \<^verbatim>\<open>for i := uint32(1); i < start.KnownEntries; i++ { ... }\<close>, with \<^verbatim>\<open>outputSeen\<close> as the
  loop carries it.
\<close>

function process_loop :: "uint32 \<Rightarrow> uint32 \<Rightarrow> bool \<Rightarrow> Machine \<Rightarrow> (go_error + bool) \<times> Machine" where
  "process_loop i n outputSeen m =
     (if i < n then
        (case machine_Read m of
           (Inl err, m') \<Rightarrow> (Inl (wrap_error ''failed to read entry'' err), m')
         | (Inr msg, m') \<Rightarrow>
             process_loop (i + 1) n
               (case msg of OutputEntryMsg _ \<Rightarrow> True | _ \<Rightarrow> outputSeen)
               (m'\<lparr>entries := entries m' @ [msg]\<rparr>))
      else (Inr outputSeen, m))"
  by pat_completeness auto
termination
proof (relation "measure (\<lambda>(i, n, outputSeen, m). unat n - unat i)")
  show "wf (measure (\<lambda>(i, n, outputSeen, m). unat n - unat i))"
    by simp
next
  fix i n :: uint32 and outputSeen b :: bool and m m' :: Machine
  assume "i < n"
  then have "unat n - unat (i + 1) < unat n - unat i"
    by unat_arith
  then show "((i + 1, n, b, m'), (i, n, outputSeen, m)) \<in> measure (\<lambda>(i, n, outputSeen, m). unat n - unat i)"
    by simp
qed

declare process_loop.simps [simp del]

text \<open>
  \<^verbatim>\<open>func (m *Machine) process(ctx *Context, start *wire.StartMessage) error\<close>. The
  completion router started with \<^verbatim>\<open>go m.handleCompletionsAcks()\<close> only reads: what it
  delivers is the \<open>route_completion\<close> of the frames left in \<open>incoming\<close>.
\<close>

definition process :: "Env \<Rightarrow> Handler \<Rightarrow> StartMessage \<Rightarrow> Machine \<Rightarrow> go_error option \<times> Machine" where
  "process env handler start m =
     (let m = foldl (\<lambda>m entry. m\<lparr>current := (current m)(string_of_bytes (fst entry) \<mapsto> snd entry)\<rparr>)
                m (start_StateMap start)
      in case machine_Read m of
           (Inl err, m') \<Rightarrow> (Some err, m')
         | (Inr (InputEntryMsg val), m') \<Rightarrow>
             (case process_loop 1 (start_KnownEntries start) False (m'\<lparr>entries := []\<rparr>) of
                (Inl err, m'') \<Rightarrow> (Some err, m'')
              | (Inr outputSeen, m'') \<Rightarrow> invoke env handler m'' val outputSeen)
         | (Inr other, m') \<Rightarrow> (Some ErrUnexpectedMessage, m'))"

text \<open>
  \<^verbatim>\<open>func (m *Machine) Start(inner context.Context, trace string) error\<close>; \<open>inner\<close> is
  what \<^verbatim>\<open>inner.Err()\<close> returns.
\<close>

definition Start :: "Env \<Rightarrow> Handler \<Rightarrow> go_error option \<Rightarrow> Machine \<Rightarrow> go_error option \<times> Machine" where
  "Start env handler inner m =
     (case machine_Read m of
        (Inl err, m') \<Rightarrow> (Some err, m')
      | (Inr (StartMsg start), m') \<Rightarrow>
          process env handler start
            (m'\<lparr>ctx := inner, id_field := start_Id start, key_field := start_Key start\<rparr>)
      | (Inr other, m') \<Rightarrow> (Some ErrUnexpectedMessage, m'))"

section \<open>Running the definitions: sequences of operations and sample states\<close>

text \<open>
  User code that recovers from the panic of one operation and goes on to the next: the
  \<^verbatim>\<open>replayOrNew\<close> calls are made one after the other, whatever the earlier ones did.
\<close>

fun replayOrNew_all ::
  "(message_type \<times> (message \<Rightarrow> Machine \<Rightarrow> 'o result) \<times> (Machine \<Rightarrow> 'o result)) list \<Rightarrow>
   Machine \<Rightarrow> (panic_value + 'o \<times> uint32) list \<times> Machine" where
  "replayOrNew_all [] m = ([], m)"
| "replayOrNew_all ((M, replay, new) # ops) m =
     (case replayOrNew M replay new m of
        (r, m') \<Rightarrow> (case replayOrNew_all ops m' of (rs, m'') \<Rightarrow> (r # rs, m'')))"

text \<open>
  A machine in replay: no sticky failure is stored, the journal has fewer than \<open>2 ^ 32\<close>
  entries (its length comes from the 32-bit \<^verbatim>\<open>KnownEntries\<close>), the 32-bit cursor is not at
  its maximum, and the next cursor position lies inside the journal.
\<close>

definition replaying :: "Machine \<Rightarrow> bool" where
  "replaying m =
     (failure m = None \<and> length (entries m) < 2 ^ 32 \<and> entryIndex m + 1 \<noteq> 0 \<and>
      unat (entryIndex m + 1) \<le> length (entries m))"

text \<open>The journal entry at the next cursor position (positions count from 1).\<close>

definition next_entry :: "Machine \<Rightarrow> message" where
  "next_entry m = entries m ! (unat (entryIndex m + 1) - 1)"

text \<open>
  The outcome of an operation that fails with a journal mismatch at the next cursor
  position: it panics with the mismatch, the cursor has advanced, the mismatch is stored
  as the sticky failure, and nothing else of the machine changes (no frame is written).
\<close>

definition raises_mismatch :: "expected_entry \<Rightarrow> message \<Rightarrow> Machine \<Rightarrow> 'o result" where
  "raises_mismatch expected actual m =
     (let e = \<lparr>mismatch_entryIndex = entryIndex m + 1, expectedEntry = expected,
                actualEntry = actual\<rparr>
      in (Inl (EntryMismatch e),
          m\<lparr>entryIndex := entryIndex m + 1, failure := Some (EntryMismatch e)\<rparr>))"

text \<open>The transport accepts the next write.\<close>

definition write_accepted :: "Machine \<Rightarrow> bool" where
  "write_accepted m = (case writeResults (protocol m) of [] \<Rightarrow> True | r # rest \<Rightarrow> r = None)"

text \<open>
  A stand-in for a digest function, to run \<open>New\<close> on: its values have 32 bytes, the
  bytes of the argument first and then \<open>1, 2, 3, \<dots>\<close>. It is not SHA-256.
\<close>

definition sample_digest :: "bytes \<Rightarrow> bytes" where
  "sample_digest ident = take 32 (ident @ map word_of_nat [1..<33])"

text \<open>A connection with the given incoming frames, nothing written and no write failing.\<close>

definition healthy_conn :: "message list \<Rightarrow> Protocol" where
  "healthy_conn frames = \<lparr>incoming = map Inr frames, writes = [], writeResults = []\<rparr>"

text \<open>A transport error, and a connection whose first write fails with it.\<close>

definition broken_pipe :: go_error where
  "broken_pipe = \<lparr>errorText = ''broken pipe'', errorCode = 500, isTerminal = False, isEOF = False\<rparr>"

definition failing_conn :: Protocol where
  "failing_conn = \<lparr>incoming = [], writes = [], writeResults = [Some broken_pipe]\<rparr>"

text \<open>A fresh machine with a replayed journal.\<close>

definition journal_machine :: "message list \<Rightarrow> Machine" where
  "journal_machine es = (NewMachine (healthy_conn []))\<lparr>entries := es\<rparr>"

text \<open>A fresh machine that holds a sticky failure.\<close>

definition poisoned :: Machine where
  "poisoned = (NewMachine (healthy_conn []))\<lparr>failure := Some (OtherPanic ''poisoned'')\<rparr>"

definition sample_call :: CallEntryMessage where
  "sample_call =
     \<lparr>call_ServiceName = ''svc'', call_HandlerName = ''m'', call_Parameter = [0x7b, 0x7d],
      call_Key = [], call_Result = Some (Value [0x31])\<rparr>"

definition sample_send :: OneWayCallEntryMessage where
  "sample_send =
     \<lparr>send_ServiceName = ''svc'', send_HandlerName = ''m'', send_Parameter = [0x7b, 0x7d],
      send_Key = [], send_InvokeTime = 1700000000000\<rparr>"

definition sample_env :: Env where
  "sample_env =
     \<lparr>debug_Stack = ''goroutine 1 [running]'', mismatch_Message = (\<lambda>e. ''Journal mismatch''),
      UnixMilli_after = (\<lambda>d. d div 1000000),
      ErrJournalMismatch = 570, ErrProtocolViolation = 571\<rparr>"

text \<open>Handlers that return their input, fail, or panic, without touching the machine.\<close>

definition echo_handler :: Handler where
  "echo_handler m input = (Inr (input, None), m)"

definition failing_handler :: "go_error \<Rightarrow> Handler" where
  "failing_handler err m input = (Inr ([], Some err), m)"

definition panicking_handler :: "panic_value \<Rightarrow> Handler" where
  "panicking_handler r m input = (Inl r, m)"

section \<open>Scenario S3 of the specification\<close>

text \<open>
  The handler of S3: \<^verbatim>\<open>call("svc", "", "m", "{}")\<close> through \<open>RequestFuture\<close> with a codec
  that passes bytes through, then the await of the response, which the handler returns.
\<close>

definition S3_handler :: Handler where
  "S3_handler m input =
     (case RequestFuture Inr
             \<lparr>serviceCall_service = ''svc'', serviceCall_key = [], serviceCall_method = ''m''\<rparr>
             (Some [0x7b, 0x7d]) m of
        (Inl r, m') \<Rightarrow> (Inl r, m')
      | (Inr (Inl err), m') \<Rightarrow> (Inr ([], Some err), m')
      | (Inr (Inr fut), m') \<Rightarrow>
          (case Response fut m' of
             (Inl r, m'') \<Rightarrow> (Inl r, m'')
           | (Inr (Some (Value v)), m'') \<Rightarrow> (Inr (v, None), m'')
           | (Inr (Some (Failure f)), m'') \<Rightarrow>
               (Inr ([], Some \<lparr>errorText = failure_Message f, errorCode = failure_Code f,
                               isTerminal = True, isEOF = False\<rparr>), m'')
           | (Inr None, m'') \<Rightarrow> (Inr ([], None), m'')))"

text \<open>
  The stream of S3: \<^verbatim>\<open>Start{N=1, state={}}\<close>, \<^verbatim>\<open>Input{""}\<close>, then end of stream with no
  completion; every write succeeds.
\<close>

definition S3_conn :: Protocol where
  "S3_conn =
     healthy_conn
       [StartMsg \<lparr>start_Id = [], start_DebugId = [], start_KnownEntries = 1,
                  start_StateMap = [], start_PartialState = False, start_Key = []\<rparr>,
        InputEntryMsg []]"

section \<open>The random source: rotation, little-endian words, refinement of the specification\<close>

lemma rotl_is_rotation:
  assumes "0 < k" and "k < 64"
  shows "push_bit k (x :: uint64) OR drop_bit (64 - k) x = word_rotl k x"
proof (rule bit_word_eqI)
  fix n
  assume n: "n < LENGTH(64)"
  have rot: "bit (word_rotl k x) n = bit x ((n + (64 - k)) mod 64)"
    using n assms by (simp add: bit_word_rotl_iff)
  have sh: "bit (push_bit k x OR drop_bit (64 - k) x) n =
      (k \<le> n \<and> bit x (n - k) \<or> bit x (64 - k + n))"
    using n by (simp add: bit_or_iff bit_push_bit_iff bit_drop_bit_eq)
  show "bit (push_bit k x OR drop_bit (64 - k) x) n = bit (word_rotl k x) n"
  proof (cases "k \<le> n")
    case True
    then have idx: "(n + (64 - k)) mod 64 = n - k"
      using assms n by (simp add: mod_if)
    have "\<not> bit x (64 - k + n)"
      using True assms by (auto dest: bit_imp_le_length)
    then show ?thesis
      using True idx rot sh by simp
  next
    case False
    have idx: "(n + (64 - k)) mod 64 = 64 - k + n"
      using False assms n by simp
    show ?thesis
      using False idx rot sh by simp
  qed
qed

lemma rotl_23: "rotl x 23 = word_rotl 23 x"
  using rotl_is_rotation [of 23 x] by (simp add: rotl_def)

lemma rotl_45: "rotl x 45 = word_rotl 45 x"
  using rotl_is_rotation [of 45 x] by (simp add: rotl_def)

lemma Uint64_step_refines:
  "spec_Uint64 (words_of r) = (fst (Rand_Uint64 r), words_of (snd (Rand_Uint64 r)))"
  by (cases "state (source r)")
     (simp add: spec_Uint64_def words_of_def Rand_Uint64_def Source_Uint64_def Let_def
        rotl_23 rotl_45 push_bit_eq_mult)

lemma Uint64s_refines: "Uint64s n r = spec_Uint64s n (words_of r)"
proof (induction n arbitrary: r)
  case 0
  show ?case by simp
next
  case (Suc n)
  show ?case
    using Suc.IH [of "snd (Rand_Uint64 r)"] Uint64_step_refines [of r]
    by (simp add: split_beta)
qed

lemma byte_and_shifted: "(ucast (b :: byte) :: uint64) AND push_bit 8 w = 0"
  by (rule bit_word_eqI)
     (auto simp add: bit_and_iff bit_push_bit_iff bit_ucast_iff dest: bit_imp_le_length)

lemma byte_or_shifted:
  "(ucast (b :: byte) :: uint64) OR push_bit 8 w = word_of_nat (unat b) + 256 * w"
proof -
  have "(ucast b :: uint64) OR push_bit 8 w = ucast b + push_bit 8 w"
    by (rule disjunctive_add_eq_or [symmetric]) (rule byte_and_shifted)
  then show ?thesis
    by (simp add: push_bit_eq_mult)
qed

lemma LittleEndian_Uint64_nested:
  "LittleEndian_Uint64 [b0, b1, b2, b3, b4, b5, b6, b7] =
   ucast b0 OR push_bit 8 (ucast b1 OR push_bit 8 (ucast b2 OR push_bit 8 (ucast b3 OR push_bit 8
    (ucast b4 OR push_bit 8 (ucast b5 OR push_bit 8 (ucast b6 OR push_bit 8 (ucast b7)))))))"
  by (simp add: LittleEndian_Uint64_def push_bit_or ac_simps)

lemma LittleEndian_Uint64_value8:
  "LittleEndian_Uint64 [b0, b1, b2, b3, b4, b5, b6, b7] =
   word_of_nat (le_value [b0, b1, b2, b3, b4, b5, b6, b7])"
proof -
  have top: "(ucast b7 :: uint64) = word_of_nat (unat b7)"
    by simp
  show ?thesis
    unfolding LittleEndian_Uint64_nested
    by (simp only: byte_or_shifted top le_value.simps) simp
qed

lemma eight_bytes:
  "length bs = 8 \<Longrightarrow> \<exists>b0 b1 b2 b3 b4 b5 b6 b7. bs = [b0, b1, b2, b3, b4, b5, b6, b7]"
  by (auto simp add: numeral_eq_Suc length_Suc_conv)

lemma LittleEndian_Uint64_value:
  "length bs = 8 \<Longrightarrow> LittleEndian_Uint64 bs = word_of_nat (le_value bs)"
  using eight_bytes [of bs] LittleEndian_Uint64_value8 by auto

lemma length_sum32: "length (sum32 d) = 32"
  by (simp add: sum32_def)

lemma sum32_digest: "length d = 32 \<Longrightarrow> sum32 d = d"
  by (simp add: sum32_def)

lemma seed_refines: "words_of (New sha256 ident) = spec_seed (sum32 (sha256 ident))"
  by (simp add: words_of_def New_def newSource_def spec_seed_def Let_def
      LittleEndian_Uint64_value length_sum32)

text \<open>
  C8: for every state of the four 64-bit words, one \<^verbatim>\<open>Uint64()\<close> call returns and stores
  what the step of the specification computes from the state before the call (the rotation
  of \<open>state[0] + state[3]\<close> by 23 plus \<open>state[0]\<close>; the six updates in order, the last one
  the rotation of \<open>state[3]\<close> by 45; all modulo \<open>2 ^ 64\<close>). With a digest function whose
  value on the invocation id has 32 bytes, as SHA-256 has, the generator made for the id
  starts from the four little-endian 64-bit words of the digest of the id, and the sequence
  of its \<^verbatim>\<open>Uint64()\<close> values is the sequence the specification computes from that digest: it
  depends on nothing but the id bytes.
\<close>

theorem Uint64_refines_spec:
  "spec_Uint64 (words_of r) = (fst (Rand_Uint64 r), words_of (snd (Rand_Uint64 r))) \<and>
   (length (hash ident) = 32 \<longrightarrow>
      words_of (New hash ident) = spec_seed (hash ident) \<and>
      Uint64s n (New hash ident) = spec_Uint64s n (spec_seed (hash ident)))"
proof -
  have "Uint64s n (New hash ident) = spec_Uint64s n (words_of (New hash ident))"
    by (rule Uint64s_refines)
  then show ?thesis
    by (simp add: Uint64_step_refines seed_refines sum32_digest)
qed

theorem Uint64_refines_spec_witness:
  "length (sample_digest [0xff, 0xfe]) = 32 \<and>
   words_of (New sample_digest [0xff, 0xfe]) =
     [0x060504030201feff, 0x0e0d0c0b0a090807, 0x161514131211100f, 0x1e1d1c1b1a191817] \<and>
   Uint64s 2 (New sample_digest [0xff, 0xfe]) = [1518576803303919631, 2350630565429770874]"
proof -
  have dig: "sample_digest [0xff, 0xfe] =
      [0xff, 0xfe, 1, 2, 3, 4, 5, 6, 7, 8, 9, 10, 11, 12, 13, 14, 15, 16,
       17, 18, 19, 20, 21, 22, 23, 24, 25, 26, 27, 28, 29, 30]"
    by code_simp
  have len: "length (sample_digest [0xff, 0xfe]) = 32"
    by (simp add: dig)
  have seed: "spec_seed (sample_digest [0xff, 0xfe]) =
      [0x060504030201feff, 0x0e0d0c0b0a090807, 0x161514131211100f, 0x1e1d1c1b1a191817]"
    by (simp add: dig spec_seed_def)
  have two: "spec_Uint64s 2
      [0x060504030201feff, 0x0e0d0c0b0a090807, 0x161514131211100f, 0x1e1d1c1b1a191817] =
      [1518576803303919631, 2350630565429770874]"
    by code_simp
  show ?thesis
    using len
      Uint64_refines_spec [where hash = sample_digest and ident = "[0xff, 0xfe]" and n = 2]
    by (simp add: seed two)
qed

lemma shifted_byte_bit:
  "bit (push_bit k (ucast (ucast (drop_bit k (v :: uint64)) :: byte) :: uint64)) n =
     (k \<le> n \<and> n < k + 8 \<and> n < 64 \<and> bit v n)"
  by (auto simp add: bit_push_bit_iff bit_ucast_iff bit_drop_bit_eq dest: bit_imp_le_length)

lemma low_byte_bit:
  "bit (ucast (ucast (v :: uint64) :: byte) :: uint64) n = (n < 8 \<and> bit v n)"
  by (auto simp add: bit_ucast_iff)

lemma Uint64_PutUint64: "LittleEndian_Uint64 (LittleEndian_PutUint64 v) = v"
proof (rule bit_word_eqI)
  fix n
  assume "n < LENGTH(64)"
  then have n: "n < 64"
    by simp
  have "bit (LittleEndian_Uint64 (LittleEndian_PutUint64 v)) n =
     (n < 8 \<and> bit v n \<or> 8 \<le> n \<and> n < 16 \<and> bit v n \<or> 16 \<le> n \<and> n < 24 \<and> bit v n \<or>
      24 \<le> n \<and> n < 32 \<and> bit v n \<or> 32 \<le> n \<and> n < 40 \<and> bit v n \<or>
      40 \<le> n \<and> n < 48 \<and> bit v n \<or> 48 \<le> n \<and> n < 56 \<and> bit v n \<or>
      56 \<le> n \<and> n < 64 \<and> bit v n)"
    using n
    by (simp add: LittleEndian_Uint64_def LittleEndian_PutUint64_def bit_or_iff
        shifted_byte_bit low_byte_bit)
  also have "\<dots> = bit v n"
    using n by arith
  finally show "bit (LittleEndian_Uint64 (LittleEndian_PutUint64 v)) n = bit v n" .
qed

lemma version_bits: "((b :: byte) AND 0x0f OR 0x40) AND 0xf0 = 0x40"
  by (simp add: bit.conj_disj_distrib2 and.assoc)

lemma variant_bits: "((b :: byte) AND 0x3f OR 0x80) AND 0xc0 = 0x80"
  by (simp add: bit.conj_disj_distrib2 and.assoc)

lemma version_keeps_low: "((b :: byte) AND 0x0f OR 0x40) AND 0x0f = b AND 0x0f"
  by (simp add: bit.conj_disj_distrib2 and.assoc)

lemma variant_keeps_low: "((b :: byte) AND 0x3f OR 0x80) AND 0x3f = b AND 0x3f"
  by (simp add: bit.conj_disj_distrib2 and.assoc)

lemma length_PutUint64: "length (LittleEndian_PutUint64 v) = 8"
  by (simp add: LittleEndian_PutUint64_def)

lemma UUID_bytes:
  "UUID r =
     (let a = fst (Rand_Uint64 r); r1 = snd (Rand_Uint64 r); b = fst (Rand_Uint64 r1);
          raw = LittleEndian_PutUint64 a @ LittleEndian_PutUint64 b
      in (raw[6 := (raw ! 6 AND 0x0f) OR 0x40, 8 := (raw ! 8 AND 0x3f) OR 0x80],
          snd (Rand_Uint64 r1)))"
  by (simp add: UUID_def Let_def split_beta length_PutUint64 nth_append)

text \<open>
  C9: for any generator state, the value \<^verbatim>\<open>UUID()\<close> returns has 16 bytes with
  \<open>byte[6] AND 0xf0 = 0x40\<close> and \<open>byte[8] AND 0xc0 = 0x80\<close>. The bytes are those of two
  successive \<^verbatim>\<open>Uint64()\<close> values \<open>a\<close> and \<open>b\<close> stored little-endian (reading the two halves
  back little-endian gives \<open>a\<close> and \<open>b\<close>), and only the high nibble of byte 6 and the two
  high bits of byte 8 differ from them.
\<close>

theorem UUID_format:
  "length (fst (UUID r)) = 16 \<and>
   fst (UUID r) ! 6 AND 0xf0 = 0x40 \<and>
   fst (UUID r) ! 8 AND 0xc0 = 0x80 \<and>
   (let a = fst (Rand_Uint64 r); r1 = snd (Rand_Uint64 r); b = fst (Rand_Uint64 r1);
        raw = LittleEndian_PutUint64 a @ LittleEndian_PutUint64 b
    in LittleEndian_Uint64 (take 8 raw) = a \<and> LittleEndian_Uint64 (drop 8 raw) = b \<and>
       take 6 (fst (UUID r)) = take 6 raw \<and>
       fst (UUID r) ! 6 AND 0x0f = raw ! 6 AND 0x0f \<and>
       fst (UUID r) ! 7 = raw ! 7 \<and>
       fst (UUID r) ! 8 AND 0x3f = raw ! 8 AND 0x3f \<and>
       drop 9 (fst (UUID r)) = drop 9 raw \<and>
       snd (UUID r) = snd (Rand_Uint64 r1))"
  by (simp add: UUID_bytes Let_def length_PutUint64 nth_list_update version_bits variant_bits
      version_keeps_low variant_keeps_low Uint64_PutUint64 drop_update_cancel)

section \<open>The journal: sticky failure, replay or new, calls in replay\<close>

lemma currentEntry_in_range:
  assumes "length (entries c) < 2 ^ 32" and "entryIndex c \<noteq> 0"
  shows "currentEntry c =
           (if unat (entryIndex c) \<le> length (entries c)
            then Inr (Some (entries c ! (unat (entryIndex c) - 1)))
            else Inr None)"
proof -
  have len: "unat (word_of_nat (length (entries c)) :: uint32) = length (entries c)"
    using assms(1) by (simp add: unat_of_nat)
  have le: "(entryIndex c \<le> word_of_nat (length (entries c))) =
      (unat (entryIndex c) \<le> length (entries c))"
    by (simp add: word_le_nat_alt len)
  have pos: "0 < unat (entryIndex c)"
    using assms(2) by (simp add: unat_gt_0)
  have dec: "unat (entryIndex c - 1) = unat (entryIndex c) - 1"
    using assms(2) by (simp add: unat_minus_one)
  have "(unat (entryIndex c) - 1 < length (entries c)) = (unat (entryIndex c) \<le> length (entries c))"
    using pos by arith
  then show ?thesis
    by (simp add: currentEntry_def le dec)
qed

lemma currentEntry_replaying:
  "replaying m \<Longrightarrow> currentEntry (m\<lparr>entryIndex := entryIndex m + 1\<rparr>) = Inr (Some (next_entry m))"
  using currentEntry_in_range [of "m\<lparr>entryIndex := entryIndex m + 1\<rparr>"]
  by (simp add: replaying_def next_entry_def)

lemma poisoned_replayOrNew: "failure m = Some f \<Longrightarrow> replayOrNew M replay new m = (Inl f, m)"
  by (simp add: replayOrNew_def)

text \<open>
  C3: once a failure is stored in the sticky failure field of the machine, a
  \<^verbatim>\<open>replayOrNew\<close> call raises that same failure and leaves the machine as it was: the
  cursor is not incremented, the journal is not read, nothing is written, and the failure
  stays stored. So every later call does the same, also when user code recovers from each
  panic and goes on, and so do the call and the one-way call built on it.
\<close>

theorem sticky_failure_reraised:
  assumes "failure m = Some f"
  shows "replayOrNew M replay new m = (Inl f, m) \<and>
         replayOrNew_all ops m = (map (\<lambda>op. Inl f) ops, m) \<and>
         doCall service key handlerName params m = (Inl f, m) \<and>
         sendCall env service key handlerName params delay m = (Inl f, m)"
proof -
  have "replayOrNew_all ops m = (map (\<lambda>op. Inl f) ops, m)"
    using assms by (induction ops) (auto simp add: poisoned_replayOrNew)
  then show ?thesis
    using assms by (simp add: doCall_def sendCall_def poisoned_replayOrNew)
qed

theorem sticky_failure_reraised_witness:
  "failure poisoned = Some (OtherPanic ''poisoned'') \<and>
   replayOrNew_all
     [(CallEntryMessageType, doCall_replay ''svc'' [] ''m'' [], doCall_new ''svc'' [] ''m'' []),
      (CallEntryMessageType, doCall_replay ''svc'' [] ''n'' [], doCall_new ''svc'' [] ''n'' [])]
     poisoned =
     ([Inl (OtherPanic ''poisoned''), Inl (OtherPanic ''poisoned'')], poisoned) \<and>
   doCall ''svc'' [] ''m'' [] poisoned = (Inl (OtherPanic ''poisoned''), poisoned)"
proof -
  have f: "failure poisoned = Some (OtherPanic ''poisoned'')"
    by (simp add: poisoned_def)
  show ?thesis
    using f
      sticky_failure_reraised [OF f, where service = "''svc''" and key = "[]" and handlerName = "''m''"
        and params = "[]" and env = sample_env and delay = 0 and M = CallEntryMessageType
        and replay = "doCall_replay ''svc'' [] ''m'' []" and new = "doCall_new ''svc'' [] ''m'' []"
        and ops =
        "[(CallEntryMessageType, doCall_replay ''svc'' [] ''m'' [], doCall_new ''svc'' [] ''m'' []),
          (CallEntryMessageType, doCall_replay ''svc'' [] ''n'' [], doCall_new ''svc'' [] ''n'' [])]"]
    by (simp del: replayOrNew_all.simps)
qed

lemma currentEntry_within:
  assumes "entryIndex c \<noteq> 0" and "entryIndex c \<le> word_of_nat (length (entries c))"
  shows "currentEntry c = Inr (Some (entries c ! (unat (entryIndex c) - 1)))"
proof -
  have "unat (entryIndex c) \<le> unat (word_of_nat (length (entries c)) :: uint32)"
    using assms(2) by (simp add: word_le_nat_alt)
  moreover have "unat (word_of_nat (length (entries c)) :: uint32) \<le> length (entries c)"
    by (simp add: unat_of_nat)
  moreover have "0 < unat (entryIndex c)"
    using assms(1) by (simp add: unat_gt_0)
  moreover have dec: "unat (entryIndex c - 1) = unat (entryIndex c) - 1"
    using assms(1) by (simp add: unat_minus_one)
  ultimately have "unat (entryIndex c - 1) < length (entries c)"
    by arith
  then show ?thesis
    using assms(2) by (simp add: currentEntry_def dec)
qed

lemma currentEntry_past:
  "\<not> entryIndex c \<le> word_of_nat (length (entries c)) \<Longrightarrow> currentEntry c = Inr None"
  by (simp add: currentEntry_def)

text \<open>
  The claim C1 as it is worded fails on the code at three inputs. On a machine that holds
  a sticky failure and has an empty journal, where the next position would be past the
  replay range, the call does not run \<^verbatim>\<open>new\<close> and does not return its result with index 1:
  it raises the stored failure, the cursor stays at 0 and no frame is written. On a machine
  whose journal holds a one-way call entry at position 1, a call with expected type
  \<^verbatim>\<open>*wire.CallEntryMessage\<close> raises a mismatch whose actual entry is not that journal entry
  but the nil pointer of the expected type. On a machine whose cursor is at the 32-bit
  maximum the cursor wraps to 0, which is not above the journal length, and the call ends
  in a runtime panic instead of fetching an entry (\<open>- 1\<close> is the 32-bit word \<open>0xFFFFFFFF\<close>).
\<close>

theorem replayOrNew_counterexample:
  "fst (replayOrNew CallEntryMessageType (doCall_replay ''svc'' [] ''m'' [])
          (doCall_new ''svc'' [] ''m'' []) poisoned) = Inl (OtherPanic ''poisoned'') \<and>
   entryIndex (snd (replayOrNew CallEntryMessageType (doCall_replay ''svc'' [] ''m'' [])
          (doCall_new ''svc'' [] ''m'' []) poisoned)) = 0 \<and>
   writes (protocol (snd (replayOrNew CallEntryMessageType (doCall_replay ''svc'' [] ''m'' [])
          (doCall_new ''svc'' [] ''m'' []) poisoned))) = [] \<and>
   entries poisoned = [] \<and>
   fst (replayOrNew CallEntryMessageType (doCall_replay ''svc'' [] ''m'' [0x7b, 0x7d])
          (doCall_new ''svc'' [] ''m'' [0x7b, 0x7d])
          (journal_machine [OneWayCallEntryMsg sample_send])) =
     Inl (EntryMismatch \<lparr>mismatch_entryIndex = 1,
                          expectedEntry = ZeroValue CallEntryMessageType,
                          actualEntry = NilMsg CallEntryMessageType\<rparr>) \<and>
   NilMsg CallEntryMessageType \<noteq> OneWayCallEntryMsg sample_send \<and>
   (case fst (replayOrNew CallEntryMessageType (doCall_replay ''svc'' [] ''m'' [0x7b, 0x7d])
          (doCall_new ''svc'' [] ''m'' [0x7b, 0x7d])
          ((journal_machine [CallEntryMsg sample_call])\<lparr>entryIndex := - 1\<rparr>)) of
      Inl (OtherPanic t) \<Rightarrow> True
    | _ \<Rightarrow> False) \<and>
   entryIndex (snd (replayOrNew CallEntryMessageType (doCall_replay ''svc'' [] ''m'' [0x7b, 0x7d])
          (doCall_new ''svc'' [] ''m'' [0x7b, 0x7d])
          ((journal_machine [CallEntryMsg sample_call])\<lparr>entryIndex := - 1\<rparr>))) = 0"
  by (simp add: replayOrNew_def poisoned_def journal_machine_def NewMachine_def healthy_conn_def
      currentEntry_def newEntryMismatch_def Let_def unat_gt_0)

text \<open>
  C1, amended: for every invocation of \<^verbatim>\<open>replayOrNew\<close> with expected entry type \<open>M\<close> on a
  machine that holds no sticky failure, the cursor is incremented to \<open>i\<close>. If \<open>i\<close> is
  within the replay range (\<open>1 \<le> i \<le> N - 1\<close>, with \<open>N - 1\<close> the 32-bit length of the
  journal), the entry at position \<open>i\<close> is fetched; if its type is not \<open>M\<close> a journal
  mismatch with expected \<open>M\<close> and index \<open>i\<close> is raised, otherwise the result of \<^verbatim>\<open>replay\<close> on
  the entry is returned with \<open>i\<close>. If \<open>i\<close> is past the replay range, \<^verbatim>\<open>new\<close> is called and
  its result is returned with \<open>i\<close>.
\<close>

theorem replayOrNew_contract:
  assumes "failure m = None"
  shows
    "(let i = entryIndex m + 1; m1 = m\<lparr>entryIndex := i\<rparr> in
      (0 < i \<and> i \<le> word_of_nat (length (entries m)) \<longrightarrow>
         (if MessageType (next_entry m) \<noteq> M
          then \<exists>actual. replayOrNew M replay new m = raises_mismatch (ZeroValue M) actual m
          else replayOrNew M replay new m =
                 (case replay (next_entry m) m1 of
                    (Inl p, m') \<Rightarrow> (Inl p, m')
                  | (Inr out, m') \<Rightarrow> (Inr (out, i), m')))) \<and>
      (word_of_nat (length (entries m)) < i \<longrightarrow>
         replayOrNew M replay new m =
           (case new m1 of
              (Inl p, m') \<Rightarrow> (Inl p, m')
            | (Inr out, m') \<Rightarrow> (Inr (out, i), m'))))"
proof -
  let ?i = "entryIndex m + 1"
  let ?m1 = "m\<lparr>entryIndex := ?i\<rparr>"
  have within: "replayOrNew M replay new m =
      (if MessageType (next_entry m) \<noteq> M
       then raises_mismatch (ZeroValue M) (NilMsg M) m
       else (case replay (next_entry m) ?m1 of
               (Inl p, m') \<Rightarrow> (Inl p, m')
             | (Inr out, m') \<Rightarrow> (Inr (out, ?i), m')))"
    if "0 < ?i" and "?i \<le> word_of_nat (length (entries m))"
  proof -
    have "currentEntry ?m1 = Inr (Some (next_entry m))"
      using currentEntry_within [of ?m1] that by (simp add: next_entry_def)
    then show ?thesis
      using assms
      by (simp add: replayOrNew_def Let_def newEntryMismatch_def raises_mismatch_def
          split: prod.splits sum.splits)
  qed
  have past: "replayOrNew M replay new m =
      (case new ?m1 of
         (Inl p, m') \<Rightarrow> (Inl p, m')
       | (Inr out, m') \<Rightarrow> (Inr (out, ?i), m'))"
    if "word_of_nat (length (entries m)) < ?i"
  proof -
    have "currentEntry ?m1 = Inr None"
      using currentEntry_past [of ?m1] that by simp
    then show ?thesis
      using assms by (simp add: replayOrNew_def Let_def split: prod.splits sum.splits)
  qed
  show ?thesis
    unfolding Let_def using within past by auto
qed

theorem replayOrNew_contract_witness:
  "replayOrNew CallEntryMessageType (doCall_replay ''svc'' [] ''m'' [0x7b, 0x7d])
     (doCall_new ''svc'' [] ''m'' [0x7b, 0x7d]) (journal_machine [CallEntryMsg sample_call]) =
     (Inr (sample_call, 1), (journal_machine [CallEntryMsg sample_call])\<lparr>entryIndex := 1\<rparr>) \<and>
   (case fst (replayOrNew CallEntryMessageType (doCall_replay ''svc'' [] ''m'' [0x7b, 0x7d])
     (doCall_new ''svc'' [] ''m'' [0x7b, 0x7d]) (journal_machine [OneWayCallEntryMsg sample_send])) of
      Inl (EntryMismatch e) \<Rightarrow>
        mismatch_entryIndex e = 1 \<and> expectedEntry e = ZeroValue CallEntryMessageType
    | _ \<Rightarrow> False) \<and>
   fst (replayOrNew CallEntryMessageType (doCall_replay ''svc'' [] ''m'' [0x7b, 0x7d])
     (doCall_new ''svc'' [] ''m'' [0x7b, 0x7d]) (journal_machine [])) =
     Inr (sample_call\<lparr>call_Result := None\<rparr>, 1)"
proof -
  let ?replay = "doCall_replay ''svc'' [] ''m'' [0x7b, 0x7d]"
  let ?new = "doCall_new ''svc'' [] ''m'' [0x7b, 0x7d]"
  have a: "failure (journal_machine [CallEntryMsg sample_call]) = None"
    and b: "failure (journal_machine [OneWayCallEntryMsg sample_send]) = None"
    and c: "failure (journal_machine []) = None"
    by (simp_all add: journal_machine_def NewMachine_def)
  show ?thesis
    using
      replayOrNew_contract [OF a, of CallEntryMessageType ?replay ?new]
      replayOrNew_contract [OF b, of CallEntryMessageType ?replay ?new]
      replayOrNew_contract [OF c, of CallEntryMessageType ?replay ?new]
    by (auto simp add: journal_machine_def NewMachine_def healthy_conn_def next_entry_def
        sample_call_def sample_send_def raises_mismatch_def doCall_new_def Write_def
        machine_protocol_Write_def protocol_Write_def Let_def)
qed

text \<open>
  C2: during replay with no sticky failure stored, when the replayed entry is a call entry
  and the operation is a call (or it is a one-way call entry and the operation is a
  one-way call): if the service name, the key, the handler name or the parameter bytes of
  the entry differ from those of the operation, the operation fails with the journal
  mismatch of the entry built from the operation against the replayed entry, at the index
  of the entry; if all four match, the call returns the replayed entry with its index and
  the one-way call, which has no result, returns. In both cases no frame is written. At
  the invocation boundary a mismatch becomes an error frame with the journal mismatch code
  and the index and type of the replayed entry.
\<close>

theorem call_replay_discriminators:
  assumes "replaying m" and "next_entry m = CallEntryMsg e"
    and "replaying c" and "next_entry c = OneWayCallEntryMsg s"
  shows
    "doCall service key method params m =
       (if call_ServiceName e = service \<and> call_Key e = key \<and> call_HandlerName e = method \<and>
           call_Parameter e = params
        then (Inr (e, entryIndex m + 1), m\<lparr>entryIndex := entryIndex m + 1\<rparr>)
        else raises_mismatch
               (Built (CallEntryMsg \<lparr>call_ServiceName = service, call_HandlerName = method,
                                      call_Parameter = params, call_Key = key, call_Result = None\<rparr>))
               (CallEntryMsg e) m) \<and>
     sendCall env service key method params delay c =
       (if send_ServiceName s = service \<and> send_Key s = key \<and> send_HandlerName s = method \<and>
           send_Parameter s = params
        then (Inr (), c\<lparr>entryIndex := entryIndex c + 1\<rparr>)
        else raises_mismatch
               (Built (OneWayCallEntryMsg
                         \<lparr>send_ServiceName = service, send_HandlerName = method,
                          send_Parameter = params, send_Key = key, send_InvokeTime = 0\<rparr>))
               (OneWayCallEntryMsg s) c) \<and>
     writes (protocol (snd (doCall service key method params m))) = writes (protocol m) \<and>
     writes (protocol (snd (sendCall env service key method params delay c))) = writes (protocol c) \<and>
     writes (protocol (recovered env (EntryMismatch mm) m')) =
       writes (protocol m') @
       [ErrorMsg \<lparr>err_Code = ErrJournalMismatch env, err_Message = mismatch_Message env mm,
                  err_Description = debug_Stack env,
                  err_RelatedEntryIndex = Some (mismatch_entryIndex mm),
                  err_RelatedEntryType = Some (MessageType (actualEntry mm))\<rparr>]"
proof -
  have fm: "failure m = None" and fc: "failure c = None"
    using assms(1,3) by (simp_all add: replaying_def)
  have call: "doCall service key method params m =
       (if call_ServiceName e = service \<and> call_Key e = key \<and> call_HandlerName e = method \<and>
           call_Parameter e = params
        then (Inr (e, entryIndex m + 1), m\<lparr>entryIndex := entryIndex m + 1\<rparr>)
        else raises_mismatch
               (Built (CallEntryMsg \<lparr>call_ServiceName = service, call_HandlerName = method,
                                      call_Parameter = params, call_Key = key, call_Result = None\<rparr>))
               (CallEntryMsg e) m)"
    using fm assms(2)
    by (simp add: doCall_def replayOrNew_def Let_def currentEntry_replaying [OF assms(1)]
        newEntryMismatch_def raises_mismatch_def)
  have send: "sendCall env service key method params delay c =
       (if send_ServiceName s = service \<and> send_Key s = key \<and> send_HandlerName s = method \<and>
           send_Parameter s = params
        then (Inr (), c\<lparr>entryIndex := entryIndex c + 1\<rparr>)
        else raises_mismatch
               (Built (OneWayCallEntryMsg
                         \<lparr>send_ServiceName = service, send_HandlerName = method,
                          send_Parameter = params, send_Key = key, send_InvokeTime = 0\<rparr>))
               (OneWayCallEntryMsg s) c)"
    using fc assms(4)
    by (simp add: sendCall_def replayOrNew_def Let_def currentEntry_replaying [OF assms(3)]
        newEntryMismatch_def raises_mismatch_def)
  have wm: "writes (protocol (snd (doCall service key method params m))) = writes (protocol m)"
    unfolding call by (simp add: raises_mismatch_def Let_def)
  have wc: "writes (protocol (snd (sendCall env service key method params delay c))) =
      writes (protocol c)"
    unfolding send by (simp add: raises_mismatch_def Let_def)
  have rec: "writes (protocol (recovered env (EntryMismatch mm) m')) =
       writes (protocol m') @
       [ErrorMsg \<lparr>err_Code = ErrJournalMismatch env, err_Message = mismatch_Message env mm,
                  err_Description = debug_Stack env,
                  err_RelatedEntryIndex = Some (mismatch_entryIndex mm),
                  err_RelatedEntryType = Some (MessageType (actualEntry mm))\<rparr>]"
    by (simp add: recovered_def machine_protocol_Write_def protocol_Write_def split: list.splits)
  show ?thesis
    using call send wm wc rec by blast
qed

theorem call_replay_discriminators_witness:
  "replaying (journal_machine [CallEntryMsg sample_call]) \<and>
   replaying (journal_machine [OneWayCallEntryMsg sample_send]) \<and>
   doCall ''svc'' [] ''m'' [0x7b, 0x7d] (journal_machine [CallEntryMsg sample_call]) =
     (Inr (sample_call, 1), (journal_machine [CallEntryMsg sample_call])\<lparr>entryIndex := 1\<rparr>) \<and>
   fst (doCall ''svc'' [] ''other'' [0x7b, 0x7d] (journal_machine [CallEntryMsg sample_call])) =
     Inl (EntryMismatch
            \<lparr>mismatch_entryIndex = 1,
             expectedEntry = Built (CallEntryMsg (sample_call\<lparr>call_HandlerName := ''other'',
                                                               call_Result := None\<rparr>)),
             actualEntry = CallEntryMsg sample_call\<rparr>) \<and>
   sendCall sample_env ''svc'' [] ''m'' [0x7b, 0x7d] 0 (journal_machine [OneWayCallEntryMsg sample_send]) =
     (Inr (), (journal_machine [OneWayCallEntryMsg sample_send])\<lparr>entryIndex := 1\<rparr>) \<and>
   fst (sendCall sample_env ''svc'' [] ''m'' [] 0 (journal_machine [OneWayCallEntryMsg sample_send])) =
     Inl (EntryMismatch
            \<lparr>mismatch_entryIndex = 1,
             expectedEntry = Built (OneWayCallEntryMsg (sample_send\<lparr>send_Parameter := [],
                                                                     send_InvokeTime := 0\<rparr>)),
             actualEntry = OneWayCallEntryMsg sample_send\<rparr>)"
proof -
  let ?m = "journal_machine [CallEntryMsg sample_call]"
  let ?c = "journal_machine [OneWayCallEntryMsg sample_send]"
  have rm: "replaying ?m" and rc: "replaying ?c"
    by (simp_all add: replaying_def journal_machine_def NewMachine_def)
  have nm: "next_entry ?m = CallEntryMsg sample_call"
    and nc: "next_entry ?c = OneWayCallEntryMsg sample_send"
    by (simp_all add: next_entry_def journal_machine_def NewMachine_def)
  show ?thesis
    using rm rc
      call_replay_discriminators [OF rm nm rc nc, of "''svc''" "[]" "''m''" "[0x7b, 0x7d]" sample_env 0]
      call_replay_discriminators [OF rm nm rc nc, of "''svc''" "[]" "''other''" "[0x7b, 0x7d]" sample_env 0]
      call_replay_discriminators [OF rm nm rc nc, of "''svc''" "[]" "''m''" "[]" sample_env 0]
    by (simp add: journal_machine_def NewMachine_def sample_call_def sample_send_def
        raises_mismatch_def Let_def)
qed

section \<open>The invocation: replayed output, handler results, recovered panics\<close>

lemma process_loop_done: "\<not> i < n \<Longrightarrow> process_loop i n seen m = (Inr seen, m)"
  by (simp add: process_loop.simps)

lemma process_loop_step:
  "i < n \<Longrightarrow> incoming (protocol m) = Inr e # rest \<Longrightarrow>
   process_loop i n seen m =
     process_loop (i + 1) n (case e of OutputEntryMsg _ \<Rightarrow> True | _ \<Rightarrow> seen)
       (m\<lparr>protocol := (protocol m)\<lparr>incoming := rest\<rparr>, entries := entries m @ [e]\<rparr>)"
  by (subst process_loop.simps) (simp add: machine_Read_def protocol_Read_def)

lemma outputSeen_step:
  "(case e of OutputEntryMsg _ \<Rightarrow> True | _ \<Rightarrow> seen) = (seen \<or> (\<exists>r. e = OutputEntryMsg r))"
  by (cases e) simp_all

lemma process_loop_reads:
  "incoming (protocol m) = map Inr es @ rest \<Longrightarrow> unat i + length es = unat n \<Longrightarrow>
   process_loop i n seen m =
     (Inr (seen \<or> (\<exists>r. OutputEntryMsg r \<in> set es)),
      m\<lparr>protocol := (protocol m)\<lparr>incoming := rest\<rparr>, entries := entries m @ es\<rparr>)"
proof (induction es arbitrary: i seen m)
  case Nil
  then have "\<not> i < n"
    by (simp add: word_less_nat_alt)
  moreover have "m\<lparr>protocol := (protocol m)\<lparr>incoming := rest\<rparr>, entries := entries m @ []\<rparr> = m"
    using Nil.prems(1) [symmetric] by simp
  ultimately show ?case
    by (simp add: process_loop_done)
next
  case (Cons e es)
  have lt: "i < n"
    using Cons.prems(2) by (simp add: word_less_nat_alt)
  then have suc: "unat (i + 1) = Suc (unat i)"
    by unat_arith
  let ?m = "m\<lparr>protocol := (protocol m)\<lparr>incoming := map Inr es @ rest\<rparr>,
              entries := entries m @ [e]\<rparr>"
  have step: "process_loop i n seen m =
     process_loop (i + 1) n (case e of OutputEntryMsg _ \<Rightarrow> True | _ \<Rightarrow> seen) ?m"
    using lt Cons.prems(1) by (simp add: process_loop_step)
  have "process_loop (i + 1) n (case e of OutputEntryMsg _ \<Rightarrow> True | _ \<Rightarrow> seen) ?m =
     (Inr ((case e of OutputEntryMsg _ \<Rightarrow> True | _ \<Rightarrow> seen) \<or> (\<exists>r. OutputEntryMsg r \<in> set es)),
      ?m\<lparr>protocol := (protocol ?m)\<lparr>incoming := rest\<rparr>, entries := entries ?m @ es\<rparr>)"
    using Cons.prems(2) suc by (intro Cons.IH) simp_all
  then show ?case
    unfolding step outputSeen_step by auto
qed

lemma StateMap_keeps_protocol:
  "protocol (foldl (\<lambda>m entry. m\<lparr>current := f m entry\<rparr>) m xs) = protocol m"
  by (induction xs arbitrary: m) simp_all

lemma process_outputSeen:
  assumes "incoming (protocol m) = Inr (InputEntryMsg val) # map Inr es @ rest"
    and "Suc (length es) = unat (start_KnownEntries start)"
    and "OutputEntryMsg r \<in> set es"
  shows "writes (protocol (snd (process env handler start m))) = writes (protocol m) @ [EndMsg] \<and>
         process env handler start m = process env handler' start m"
proof -
  let ?m0 = "foldl (\<lambda>m entry. m\<lparr>current := (current m)(string_of_bytes (fst entry) \<mapsto> snd entry)\<rparr>)
               m (start_StateMap start)"
  have p0: "protocol ?m0 = protocol m"
    by (rule StateMap_keeps_protocol)
  let ?m1 = "?m0\<lparr>protocol := (protocol m)\<lparr>incoming := map Inr es @ rest\<rparr>\<rparr>"
  have rd: "machine_Read ?m0 = (Inr (InputEntryMsg val), ?m1)"
    using assms(1) by (simp add: machine_Read_def protocol_Read_def p0)
  have loop: "process_loop 1 (start_KnownEntries start) False (?m1\<lparr>entries := []\<rparr>) =
      (Inr True, ?m1\<lparr>protocol := (protocol m)\<lparr>incoming := rest\<rparr>, entries := es\<rparr>)"
    using process_loop_reads [of "?m1\<lparr>entries := []\<rparr>" es rest 1 "start_KnownEntries start" False]
      assms(2,3)
    by auto
  have eq: "process env h start m =
      machine_protocol_Write EndMsg
        (?m1\<lparr>protocol := (protocol m)\<lparr>incoming := rest\<rparr>, entries := es\<rparr>)" for h
    by (simp add: process_def Let_def rd loop invoke_def del: foldl.simps)
  have "writes (protocol (snd (process env handler start m))) = writes (protocol m) @ [EndMsg]"
    unfolding eq by (simp add: machine_protocol_Write_def protocol_Write_def split: list.splits)
  moreover have "process env handler start m = process env handler' start m"
    unfolding eq ..
  ultimately show ?thesis ..
qed

text \<open>
  C4: when the frames read are \<^verbatim>\<open>Start\<close> with known-entries count \<open>N\<close>, \<^verbatim>\<open>Input\<close> and the
  \<open>N - 1\<close> replayed entries, and one of these entries is an \<^verbatim>\<open>Output\<close> entry, the machine
  writes exactly one frame, the end message, and the outcome is the same whatever the
  handler is: the handler is not invoked.
\<close>

theorem replayed_output_ends_invocation:
  assumes "incoming (protocol m) =
             Inr (StartMsg start) # Inr (InputEntryMsg val) # map Inr es @ rest"
    and "Suc (length es) = unat (start_KnownEntries start)"
    and "OutputEntryMsg r \<in> set es"
  shows "writes (protocol (snd (Start env handler inner m))) = writes (protocol m) @ [EndMsg] \<and>
         Start env handler inner m = Start env handler' inner m"
proof -
  let ?m = "m\<lparr>protocol := (protocol m)\<lparr>incoming := Inr (InputEntryMsg val) # map Inr es @ rest\<rparr>,
              ctx := inner, id_field := start_Id start, key_field := start_Key start\<rparr>"
  have st: "Start env h inner m = process env h start ?m" for h
    using assms(1) by (simp add: Start_def machine_Read_def protocol_Read_def)
  have inc: "incoming (protocol ?m) = Inr (InputEntryMsg val) # map Inr es @ rest"
    by simp
  show ?thesis
    using process_outputSeen [OF inc assms(2,3), of env] by (simp add: st)
qed

theorem replayed_output_ends_invocation_witness:
  "writes (protocol (snd (Start sample_env S3_handler None
     (NewMachine (healthy_conn
        [StartMsg \<lparr>start_Id = [], start_DebugId = [], start_KnownEntries = 3,
                   start_StateMap = [([0x78], [0x31])], start_PartialState = False, start_Key = []\<rparr>,
         InputEntryMsg [],
         CallEntryMsg sample_call,
         OutputEntryMsg (Value [0x31])]))))) = [EndMsg]"
proof -
  let ?start = "\<lparr>start_Id = [], start_DebugId = [], start_KnownEntries = 3,
                   start_StateMap = [([0x78], [0x31])], start_PartialState = False, start_Key = []\<rparr>"
  let ?es = "[CallEntryMsg sample_call, OutputEntryMsg (Value [0x31])]"
  let ?m = "NewMachine (healthy_conn (StartMsg ?start # InputEntryMsg [] # ?es))"
  have a: "incoming (protocol ?m) = Inr (StartMsg ?start) # Inr (InputEntryMsg []) # map Inr ?es @ []"
    by (simp add: NewMachine_def healthy_conn_def)
  have b: "Suc (length ?es) = unat (start_KnownEntries ?start)"
    by simp
  have c: "OutputEntryMsg (Value [0x31]) \<in> set ?es"
    by simp
  show ?thesis
    using replayed_output_ends_invocation [OF a b c, of sample_env S3_handler None S3_handler]
    by (simp add: NewMachine_def healthy_conn_def)
qed

text \<open>
  The claim C5 as it is worded: a handler that returns success bytes makes the machine
  write the output and then the end message. When the transport fails the write of the
  output, \<^verbatim>\<open>invoke\<close> returns that error at once: the output is the only frame handed to the
  codec and no end message follows.
\<close>

theorem output_write_failure_counterexample:
  "writes (protocol (snd (invoke sample_env echo_handler (NewMachine failing_conn) [0x31] False))) =
     [OutputEntryMsg (Value [0x31])] \<and>
   fst (invoke sample_env echo_handler (NewMachine failing_conn) [0x31] False) = Some broken_pipe \<and>
   echo_handler (NewMachine failing_conn) [0x31] = (Inr ([0x31], None), NewMachine failing_conn)"
  by (simp add: invoke_def echo_handler_def NewMachine_def failing_conn_def
      machine_protocol_Write_def protocol_Write_def)

text \<open>
  C5, amended: when the user handler returns, the frames the machine then writes are: on
  success bytes, the output with the value and, provided the transport accepted that
  write, the end message; on a terminal error, the output with the failure (code and
  message of the error) and, provided the transport accepted that write, the end message;
  on a non-terminal error, a single error frame with the code and message of the error,
  and no end message.
\<close>

theorem handler_return_frames:
  assumes "handler m input = (Inr (bytes, err), m')"
  shows "writes (protocol (snd (invoke env handler m input False))) =
     writes (protocol m') @
     (case err of
        None \<Rightarrow> OutputEntryMsg (Value bytes) # (if write_accepted m' then [EndMsg] else [])
      | Some e \<Rightarrow>
          if isTerminal e
          then OutputEntryMsg (Failure \<lparr>failure_Code = errorCode e, failure_Message = errorText e\<rparr>) #
               (if write_accepted m' then [EndMsg] else [])
          else [ErrorMsg \<lparr>err_Code = errorCode e, err_Message = errorText e, err_Description = [],
                          err_RelatedEntryIndex = None, err_RelatedEntryType = None\<rparr>])"
  using assms
  by (simp add: invoke_def machine_protocol_Write_def protocol_Write_def write_accepted_def
      split: option.splits list.splits)

theorem handler_return_frames_witness:
  "writes (protocol (snd (invoke sample_env echo_handler (NewMachine (healthy_conn [])) [0x31] False))) =
     [OutputEntryMsg (Value [0x31]), EndMsg] \<and>
   writes (protocol (snd (invoke sample_env (failing_handler (NewTerminalError broken_pipe))
     (NewMachine (healthy_conn [])) [] False))) =
     [OutputEntryMsg (Failure \<lparr>failure_Code = 500, failure_Message = ''broken pipe''\<rparr>), EndMsg] \<and>
   writes (protocol (snd (invoke sample_env (failing_handler broken_pipe)
     (NewMachine (healthy_conn [])) [] False))) =
     [ErrorMsg \<lparr>err_Code = 500, err_Message = ''broken pipe'', err_Description = [],
                err_RelatedEntryIndex = None, err_RelatedEntryType = None\<rparr>]"
proof -
  let ?m = "NewMachine (healthy_conn [])"
  have a: "echo_handler ?m [0x31] = (Inr ([0x31], None), ?m)"
    by (simp add: echo_handler_def)
  have b: "failing_handler (NewTerminalError broken_pipe) ?m [] =
      (Inr ([], Some (NewTerminalError broken_pipe)), ?m)"
    by (simp add: failing_handler_def)
  have c: "failing_handler broken_pipe ?m [] = (Inr ([], Some broken_pipe), ?m)"
    by (simp add: failing_handler_def)
  show ?thesis
    using
      handler_return_frames [where handler = echo_handler and m = "?m" and input = "[0x31]"
        and env = sample_env, OF a]
      handler_return_frames [where handler = "failing_handler (NewTerminalError broken_pipe)"
        and m = "?m" and input = "[]" and env = sample_env, OF b]
      handler_return_frames [where handler = "failing_handler broken_pipe"
        and m = "?m" and input = "[]" and env = sample_env, OF c]
    by (simp add: NewMachine_def healthy_conn_def write_accepted_def NewTerminalError_def
        broken_pipe_def)
qed

text \<open>
  C6: when the handler panics with a suspension, the frames the machine then writes are:
  nothing when the outer invocation context is cancelled; otherwise, when the cause of
  the suspension is end of stream, one suspension message carrying the entry indexes of
  the suspension; otherwise one error frame with the code and the text of the cause.
\<close>

theorem suspension_frames:
  assumes "handler m input = (Inl (Suspension typ), m')"
  shows "writes (protocol (snd (invoke env handler m input False))) =
     writes (protocol m') @
     (if ctx m' \<noteq> None then []
      else if isEOF (Err typ) then [SuspensionMsg (EntryIndexes typ)]
      else [ErrorMsg \<lparr>err_Code = errorCode (Err typ),
                      err_Message = ''problem reading completions: '' @ errorText (Err typ),
                      err_Description = debug_Stack env,
                      err_RelatedEntryIndex = None, err_RelatedEntryType = None\<rparr>])"
  using assms
  by (simp add: invoke_def recovered_def machine_protocol_Write_def protocol_Write_def
      split: list.splits)

theorem suspension_frames_witness:
  "writes (protocol (snd (invoke sample_env
     (panicking_handler (Suspension \<lparr>EntryIndexes = [1, 3], Err = io_EOF\<rparr>))
     (NewMachine (healthy_conn [])) [] False))) = [SuspensionMsg [1, 3]] \<and>
   writes (protocol (snd (invoke sample_env
     (panicking_handler (Suspension \<lparr>EntryIndexes = [1, 3], Err = broken_pipe\<rparr>))
     (NewMachine (healthy_conn [])) [] False))) =
     [ErrorMsg \<lparr>err_Code = 500, err_Message = ''problem reading completions: broken pipe'',
                err_Description = ''goroutine 1 [running]'',
                err_RelatedEntryIndex = None, err_RelatedEntryType = None\<rparr>] \<and>
   writes (protocol (snd (invoke sample_env
     (panicking_handler (Suspension \<lparr>EntryIndexes = [1, 3], Err = io_EOF\<rparr>))
     ((NewMachine (healthy_conn []))\<lparr>ctx := Some broken_pipe\<rparr>) [] False))) = []"
proof -
  let ?m = "NewMachine (healthy_conn [])"
  let ?c = "(NewMachine (healthy_conn []))\<lparr>ctx := Some broken_pipe\<rparr>"
  let ?eof = "\<lparr>EntryIndexes = [1, 3], Err = io_EOF\<rparr>"
  let ?io = "\<lparr>EntryIndexes = [1, 3], Err = broken_pipe\<rparr>"
  have a: "panicking_handler (Suspension ?eof) ?m [] = (Inl (Suspension ?eof), ?m)"
    by (simp add: panicking_handler_def)
  have b: "panicking_handler (Suspension ?io) ?m [] = (Inl (Suspension ?io), ?m)"
    by (simp add: panicking_handler_def)
  have c: "panicking_handler (Suspension ?eof) ?c [] = (Inl (Suspension ?eof), ?c)"
    by (simp add: panicking_handler_def)
  show ?thesis
    using
      suspension_frames [where handler = "panicking_handler (Suspension ?eof)" and m = "?m"
        and input = "[]" and env = sample_env, OF a]
      suspension_frames [where handler = "panicking_handler (Suspension ?io)" and m = "?m"
        and input = "[]" and env = sample_env, OF b]
      suspension_frames [where handler = "panicking_handler (Suspension ?eof)" and m = "?c"
        and input = "[]" and env = sample_env, OF c]
    by (simp add: NewMachine_def healthy_conn_def io_EOF_def broken_pipe_def sample_env_def)
qed

text \<open>
  C10: when the handler panics with a side-effect failure, the machine writes one error
  frame that carries the code and the text of the failure's error and the index of the
  failing entry, and whose related entry type is the type of the awakeable entry message,
  which is not the type of the side-effect entry message.
\<close>

theorem sideEffect_failure_frame:
  assumes "handler m input = (Inl (SideEffectFailure typ), m')"
  shows "writes (protocol (snd (invoke env handler m input False))) =
     writes (protocol m') @
     [ErrorMsg \<lparr>err_Code = errorCode (sideEffect_err typ),
                err_Message = errorText (sideEffect_err typ),
                err_Description = debug_Stack env,
                err_RelatedEntryIndex = Some (sideEffect_entryIndex typ),
                err_RelatedEntryType = Some AwakeableEntryMessageType\<rparr>] \<and>
     AwakeableEntryMessageType \<noteq> SideEffectEntryMessageType"
  using assms
  by (simp add: invoke_def recovered_def machine_protocol_Write_def protocol_Write_def
      split: list.splits)

theorem sideEffect_failure_frame_witness:
  "writes (protocol (snd (invoke sample_env
     (panicking_handler (SideEffectFailure
        \<lparr>sideEffect_entryIndex = 4, sideEffect_err = NewTerminalError broken_pipe\<rparr>))
     (NewMachine (healthy_conn [])) [] False))) =
     [ErrorMsg \<lparr>err_Code = 500, err_Message = ''broken pipe'',
                err_Description = ''goroutine 1 [running]'',
                err_RelatedEntryIndex = Some 4,
                err_RelatedEntryType = Some AwakeableEntryMessageType\<rparr>]"
proof -
  let ?m = "NewMachine (healthy_conn [])"
  let ?f = "\<lparr>sideEffect_entryIndex = 4, sideEffect_err = NewTerminalError broken_pipe\<rparr>"
  have a: "panicking_handler (SideEffectFailure ?f) ?m [] = (Inl (SideEffectFailure ?f), ?m)"
    by (simp add: panicking_handler_def)
  show ?thesis
    using
      sideEffect_failure_frame [where handler = "panicking_handler (SideEffectFailure ?f)"
        and m = "?m" and input = "[]" and env = sample_env, OF a]
    by (simp add: NewMachine_def healthy_conn_def NewTerminalError_def broken_pipe_def
        sample_env_def)
qed

text \<open>
  The claim C7 as it is worded: in scenario S3 the suspension message lists exactly
  index 2. The machine does not count the input entry: the cursor starts at 0, the call
  is the first operation and gets index 1, and the suspension message lists index 1.
\<close>

theorem S3_suspension_index_counterexample:
  "writes (protocol (snd (Start sample_env S3_handler None (NewMachine S3_conn)))) \<noteq>
     [CallEntryMsg \<lparr>call_ServiceName = ''svc'', call_HandlerName = ''m'',
                     call_Parameter = [0x7b, 0x7d], call_Key = [], call_Result = None\<rparr>,
      SuspensionMsg [2]]"
  by (simp add: Start_def process_def process_loop_done invoke_def S3_handler_def RequestFuture_def
      doCall_def replayOrNew_def currentEntry_def doCall_new_def Write_def
      machine_protocol_Write_def protocol_Write_def machine_Read_def protocol_Read_def
      Response_def recovered_def NewMachine_def S3_conn_def healthy_conn_def io_EOF_def Let_def)

text \<open>
  C7, amended: in scenario S3 (\<^verbatim>\<open>Start\<close> with \<open>N = 1\<close> and empty state, \<^verbatim>\<open>Input\<close>, a handler
  that performs \<^verbatim>\<open>call("svc", "", "m", "{}")\<close> and awaits the response, no completion, end
  of stream) the machine writes the call entry and then a suspension message whose
  entry-index list is exactly \<open>[1]\<close>: the input entry is index 0 and the call index 1.
\<close>

theorem S3_frames:
  "writes (protocol (snd (Start env S3_handler None (NewMachine S3_conn)))) =
     [CallEntryMsg \<lparr>call_ServiceName = ''svc'', call_HandlerName = ''m'',
                     call_Parameter = [0x7b, 0x7d], call_Key = [], call_Result = None\<rparr>,
      SuspensionMsg [1]] \<and>
   fst (Start env S3_handler None (NewMachine S3_conn)) = None \<and>
   fst (doCall ''svc'' [] ''m'' [0x7b, 0x7d] (NewMachine (healthy_conn []))) =
     Inr (\<lparr>call_ServiceName = ''svc'', call_HandlerName = ''m'',
           call_Parameter = [0x7b, 0x7d], call_Key = [], call_Result = None\<rparr>, 1)"
  by (simp add: Start_def process_def process_loop_done invoke_def S3_handler_def RequestFuture_def
      doCall_def replayOrNew_def currentEntry_def doCall_new_def Write_def
      machine_protocol_Write_def protocol_Write_def machine_Read_def protocol_Read_def
      Response_def recovered_def NewMachine_def S3_conn_def healthy_conn_def io_EOF_def Let_def)

end
